theory Spec2Isabelle
  imports Main "HOL-Library.AList"
begin

section \<open>Data model\<close>

text \<open>
  The ingestion lifecycle manager of \<^verbatim>\<open>GlobalIngestionLifecycleManager.ts\<close>, the
  orchestrator concatenated to the same file, and \<^verbatim>\<open>processWebhookRequest.ts\<close>.
  The declarations of \<^verbatim>\<open>interfaces.ts\<close> are not part of the sources; the records
  below carry the properties the code reads and writes.

  JavaScript values: an absent property is \<open>None\<close>; a string is falsy when it is
  absent or empty (\<open>truthy\<close>). A \<^verbatim>\<open>Map\<close> keeps insertion order, so the two tables of
  the store are association lists: \<open>AList.update\<close> replaces in place or appends at the
  end, as \<^verbatim>\<open>Map.set\<close> does.
\<close>

definition truthy :: "string option \<Rightarrow> bool" where
  "truthy v = (case v of None \<Rightarrow> False | Some x \<Rightarrow> x \<noteq> [])"

text \<open>\<^verbatim>\<open>a || b\<close> on possibly absent strings.\<close>

definition orElse :: "string option \<Rightarrow> string option \<Rightarrow> string option" where
  "orElse a b = (if truthy a then a else b)"

text \<open>\<^verbatim>\<open>a || 'literal'\<close>.\<close>

definition orDefault :: "string option \<Rightarrow> string \<Rightarrow> string" where
  "orDefault a d = (case a of None \<Rightarrow> d | Some x \<Rightarrow> if x = [] then d else x)"

definition quoted :: "string \<Rightarrow> string" where
  "quoted x = CHR 0x27 # x @ [CHR 0x27]"

datatype IngestionTaskStatus = SCHEDULED | RUNNING | COMPLETED | FAILED

datatype ChangeType = UPSERT | DELETE | UNKNOWN

type_synonym Config = "(string \<times> string) list"

record PluginSpec =
  pluginType :: string
  config :: Config

record WebhookTrigger =
  endpointId :: string
  callbackurl :: string
  credentials :: "string option"
  externalWebhookId :: "string option"
  secret :: "string option"

datatype IngestionTrigger = Manual | Cron string | Webhook WebhookTrigger

record 'd GSStatus =
  success :: bool
  code :: int
  message :: string
  data :: "'d option"

text \<open>\<^verbatim>\<open>new GSStatus(success, code, message, data)\<close>.\<close>

definition newGSStatus :: "bool \<Rightarrow> int \<Rightarrow> string \<Rightarrow> 'd option \<Rightarrow> 'd GSStatus" where
  "newGSStatus s c m d = \<lparr>success = s, code = c, message = m, data = d\<rparr>"

text \<open>
  What a source returns in \<^verbatim>\<open>status.data\<close>: the records under \<^verbatim>\<open>data\<close> (an array or a
  single value) and the continuation cursors.
\<close>

datatype RawField = RawArray "string list" | RawScalar string

record SourceData =
  sd_data :: "RawField option"
  sd_startPageToken :: "string option"
  sd_nextPageToken :: "string option"
  sd_otherCrawlerSpecificTokens :: "string option"

datatype RawItem = Item string | Whole SourceData

datatype AnyData = FromSource "SourceData option" | Text string

text \<open>
  The \<^verbatim>\<open>data\<close> object of the statuses the orchestrator builds, together with the cursor
  properties that \<^verbatim>\<open>runOrchestrator\<close> reads from it.
\<close>

record StatusData =
  itemsProcessed :: "nat option"
  d_data :: "AnyData option"
  d_startPageToken :: "string option"
  d_nextPageToken :: "string option"
  d_otherCrawlerSpecificTokens :: "string option"

record WebhookRegistryEntry =
  e_sourceIdentifier :: string
  e_endpointId :: string
  e_secret :: string
  e_externalWebhookId :: string
  e_registeredTasks :: "string list"
  e_webhookFlag :: bool
  e_startPageToken :: "string option"
  e_nextPageToken :: "string option"
  e_otherCrawlerSpecificTokens :: "string option"

text \<open>
  A task. The last six properties are not part of a task definition: \<^verbatim>\<open>registerWebhook\<close>
  copies them from the new registry entry with
  \<^verbatim>\<open>updateTask(taskId, { trigger: trigger, ...newWebhookEntry })\<close>. The manager never
  reads them back; \<open>t_registeredTasks\<close> holds the value at the time of the copy.
\<close>

record IngestionTaskDefinition =
  t_id :: string
  t_name :: string
  t_enabled :: bool
  t_source :: PluginSpec
  t_destination :: "PluginSpec option"
  t_trigger :: IngestionTrigger
  t_currentStatus :: "IngestionTaskStatus option"
  t_lastRun :: "int option"
  t_lastRunStatus :: "StatusData GSStatus option"
  t_startPageToken :: "string option"
  t_nextPageToken :: "string option"
  t_otherCrawlerSpecificTokens :: "string option"
  t_sourceIdentifier :: "string option"
  t_endpointId :: "string option"
  t_secret :: "string option"
  t_externalWebhookId :: "string option"
  t_registeredTasks :: "string list option"
  t_webhookFlag :: "bool option"

text \<open>Modelled from the spec: the record type \<^verbatim>\<open>IngestionData\<close> of \<^verbatim>\<open>interfaces.ts\<close>
  (section 3.5 of the specification).\<close>

record IngestionData =
  r_id :: string
  r_content :: string
  r_url :: "string option"
  r_statusCode :: int
  r_fetchedAt :: string
  r_metadata :: "(string \<times> string) list"

text \<open>The parsed body of a Git webhook, as far as \<^verbatim>\<open>handleGitWebhook\<close> reads it (a body
  that parses is taken to be a JSON object), and the payload synthesised from the headers
  of a Drive notification.\<close>

record GitPayload =
  gp_deleted :: bool
  gp_repository_full_name :: "string option"

record GDrivePayload =
  channelResourceId :: "string option"
  resourceState :: "string option"
  x_goog_channel_id :: "string option"
  x_goog_message_number :: "string option"
  x_goog_resource_state :: "string option"
  x_goog_resource_uri :: "string option"

datatype WebhookPayload = GitBody GitPayload | GDriveBody GDrivePayload | EmptyText

text \<open>The payload handed to a run. \<open>p_taskDefinition\<close> holds the task as it is when the
  payload is built.\<close>

record Payload =
  p_taskDefinition :: "IngestionTaskDefinition option"
  p_webhookPayload :: "WebhookPayload option"
  p_externalResourceId :: "string option"
  p_changeType :: "ChangeType option"
  p_startPageToken :: "string option"
  p_nextPageToken :: "string option"
  p_otherCrawlerSpecificTokens :: "string option"
  p_fetchedAt :: "string option"

definition emptyPayload :: Payload where
  "emptyPayload = \<lparr>p_taskDefinition = None, p_webhookPayload = None,
     p_externalResourceId = None, p_changeType = None, p_startPageToken = None,
     p_nextPageToken = None, p_otherCrawlerSpecificTokens = None, p_fetchedAt = None\<rparr>"

record SendResult =
  sr_success :: bool
  sr_message :: string
  sr_data :: "string option"

record WebhookRegistrationResult =
  reg_success :: bool
  reg_externalId :: "string option"
  reg_startpageToken :: "string option"
  reg_nextPageToken :: "string option"
  reg_otherCrawlerSpecificTokens :: "string option"
  reg_error :: "string option"

record WebhookDeregistrationResult =
  dereg_success :: bool
  dereg_message :: "string option"

datatype FailurePayload = FailStatus "StatusData GSStatus" | FailPlain string "SourceData option"

datatype Event =
    TASK_SCHEDULED IngestionTaskDefinition
  | TASK_UPDATED IngestionTaskDefinition
  | TASK_DELETED string
  | TASK_TRIGGERED string
  | DATA_FETCHED "RawItem list" string
  | DATA_TRANSFORMED "IngestionData list" string
  | DATA_PROCESSED "IngestionData list" string
  | TASK_COMPLETED string "StatusData GSStatus"
  | TASK_FAILED string FailurePayload

text \<open>Calls that leave the manager: the payload handed to a source and the records handed
  to a destination, per task id.\<close>

datatype ExternalCall =
    SourceExecute string "Payload option"
  | DestinationProcessData string "IngestionData list"

section \<open>The environment\<close>

text \<open>
  Everything the code obtains from outside the repository: random values, the clock, the
  \<^verbatim>\<open>cron-parser\<close>, \<^verbatim>\<open>crypto\<close>, \<^verbatim>\<open>JSON.parse\<close> and \<^verbatim>\<open>URL\<close> libraries, the provider calls
  behind \<^verbatim>\<open>DataSourceApiUtils\<close>, and the registered plugins. A thrown error is \<open>Inl\<close>
  with its message (or \<open>Some\<close> message where nothing is returned).

  Times are milliseconds since the epoch. \<open>dateParse\<close> is \<^verbatim>\<open>new Date(text)\<close>, with \<open>None\<close>
  for an invalid date. \<open>cronPrev expression now\<close> is
  \<^verbatim>\<open>CronExpressionParser.parse(expression, {currentDate: now}).prev().toDate()\<close>:
  what the parser returns as the previous scheduled time, or the error it throws.
  \<open>runFinishedAt taskId\<close> is the wall clock read by the \<^verbatim>\<open>new Date()\<close> that
  \<^verbatim>\<open>runOrchestrator\<close> stores as \<open>lastRun\<close>.
\<close>

record World =
  uuidv4 :: string
  randomSecret :: string
  wallNow :: int
  dateParse :: "string \<Rightarrow> int option"
  runFinishedAt :: "string \<Rightarrow> int"
  fetchedAtIso :: "string \<Rightarrow> string"
  cronPrev :: "string \<Rightarrow> int \<Rightarrow> string + int"
  hmacSha256Hex :: "string \<Rightarrow> string \<Rightarrow> string"
  jsonParse :: "string \<Rightarrow> GitPayload option"
  urlParse :: "string \<Rightarrow> (string \<times> string) option"
  apiRegisterWebhook :: "string \<Rightarrow> string \<Rightarrow> string \<Rightarrow> string \<Rightarrow> string \<Rightarrow> WebhookRegistrationResult"
  apiDeregisterWebhook :: "string \<Rightarrow> string \<Rightarrow> string \<Rightarrow> string \<Rightarrow> WebhookDeregistrationResult"
  sourceInitClient :: "PluginSpec \<Rightarrow> string option"
  sourceExecute :: "PluginSpec \<Rightarrow> Payload option \<Rightarrow> string + SourceData GSStatus"
  dataTransformer :: "string \<Rightarrow> RawItem list \<Rightarrow> Payload \<Rightarrow> string + IngestionData list"
  destinationInit :: "PluginSpec \<Rightarrow> string option"
  destinationProcessData :: "PluginSpec \<Rightarrow> IngestionData list \<Rightarrow> string + SendResult"

section \<open>The store (InMemoryDatabaseService) and the manager's state\<close>

record State =
  tasks :: "(string \<times> IngestionTaskDefinition) list"
  webhookRegistrations :: "(string \<times> WebhookRegistryEntry) list"
  registeredSources :: "string list"
  registeredDestinations :: "string list"
  events :: "Event list"
  calls :: "ExternalCall list"

definition getTask :: "State \<Rightarrow> string \<Rightarrow> IngestionTaskDefinition option" where
  "getTask s taskId = map_of (tasks s) taskId"

definition saveTask :: "IngestionTaskDefinition \<Rightarrow> State \<Rightarrow> State" where
  "saveTask task s = s\<lparr>tasks := AList.update (t_id task) task (tasks s)\<rparr>"

text \<open>\<^verbatim>\<open>Object.assign(existingTask, updates)\<close>: the patch is the function that assigns its
  properties; a missing id only logs a warning.\<close>

definition updateTask ::
  "string \<Rightarrow> (IngestionTaskDefinition \<Rightarrow> IngestionTaskDefinition) \<Rightarrow> State \<Rightarrow> State" where
  "updateTask taskId updates s =
     (case map_of (tasks s) taskId of
        Some existingTask \<Rightarrow> s\<lparr>tasks := AList.update taskId (updates existingTask) (tasks s)\<rparr>
      | None \<Rightarrow> s)"

definition db_deleteTask :: "string \<Rightarrow> State \<Rightarrow> State" where
  "db_deleteTask taskId s = s\<lparr>tasks := AList.delete taskId (tasks s)\<rparr>"

definition listAllTasks :: "State \<Rightarrow> IngestionTaskDefinition list" where
  "listAllTasks s = map snd (tasks s)"

definition getWebhookRegistration :: "State \<Rightarrow> string \<Rightarrow> WebhookRegistryEntry option" where
  "getWebhookRegistration s sourceIdentifier = map_of (webhookRegistrations s) sourceIdentifier"

definition saveWebhookRegistration :: "WebhookRegistryEntry \<Rightarrow> State \<Rightarrow> State" where
  "saveWebhookRegistration entry s =
     s\<lparr>webhookRegistrations := AList.update (e_sourceIdentifier entry) entry (webhookRegistrations s)\<rparr>"

definition updateWebhookRegistration ::
  "string \<Rightarrow> (WebhookRegistryEntry \<Rightarrow> WebhookRegistryEntry) \<Rightarrow> State \<Rightarrow> State" where
  "updateWebhookRegistration sourceIdentifier updates s =
     (case map_of (webhookRegistrations s) sourceIdentifier of
        Some existingEntry \<Rightarrow>
          s\<lparr>webhookRegistrations :=
              AList.update sourceIdentifier (updates existingEntry) (webhookRegistrations s)\<rparr>
      | None \<Rightarrow> s)"

definition deleteWebhookRegistration :: "string \<Rightarrow> State \<Rightarrow> State" where
  "deleteWebhookRegistration sourceIdentifier s =
     s\<lparr>webhookRegistrations := AList.delete sourceIdentifier (webhookRegistrations s)\<rparr>"

definition emit :: "Event \<Rightarrow> State \<Rightarrow> State" where
  "emit e s = s\<lparr>events := events s @ [e]\<rparr>"

definition record_call :: "ExternalCall \<Rightarrow> State \<Rightarrow> State" where
  "record_call c s = s\<lparr>calls := calls s @ [c]\<rparr>"

text \<open>A new manager on a new \<^verbatim>\<open>InMemoryDatabaseService\<close>: every \<^verbatim>\<open>Map\<close> is empty.\<close>

definition initialState :: State where
  "initialState = \<lparr>tasks = [], webhookRegistrations = [], registeredSources = [],
     registeredDestinations = [], events = [], calls = []\<rparr>"

section \<open>Source identifiers\<close>

definition getSourceIdentifier :: "string \<Rightarrow> Config \<Rightarrow> string option" where
  "getSourceIdentifier pt sourceConfig =
     (if pt = ''git-crawler'' then map_of sourceConfig ''repoUrl''
      else if pt = ''googledrive-crawler'' then map_of sourceConfig ''folderId''
      else if pt = ''teams-chat-crawler''
        then orElse (map_of sourceConfig ''meetingId'') (map_of sourceConfig ''chatId'')
      else if pt = ''http-crawler'' then map_of sourceConfig ''url''
      else None)"

text \<open>\<^verbatim>\<open>String.prototype.split\<close> with a one-character separator.\<close>

fun split_on :: "char \<Rightarrow> string \<Rightarrow> string list" where
  "split_on c [] = [[]]"
| "split_on c (x # xs) =
     (if x = c then [] # split_on c xs
      else (case split_on c xs of [] \<Rightarrow> [[x]] | p # ps \<Rightarrow> (x # p) # ps))"

definition extractRepoNameFromUrl :: "World \<Rightarrow> string \<Rightarrow> string" where
  "extractRepoNameFromUrl w repoUrl =
     (case urlParse w repoUrl of
        None \<Rightarrow> repoUrl
      | Some (hostname, pathname) \<Rightarrow>
          (let pathParts = filter (\<lambda>part. part \<noteq> []) (split_on (CHR ''/'') pathname)
           in if hostname = ''github.com'' \<and> length pathParts \<ge> 2
              then pathParts ! 0 @ ''/'' @ pathParts ! 1
              else repoUrl))"

section \<open>Webhook registration and deregistration\<close>

definition failed500 :: "string \<Rightarrow> string \<Rightarrow> StatusData GSStatus" where
  "failed500 prefix errorMessage = newGSStatus False 500 (prefix @ errorMessage) None"

text \<open>
  \<^verbatim>\<open>registerWebhook\<close>. The manager calls it for webhook triggers only; on another
  trigger the cast \<^verbatim>\<open>trigger as WebhookTrigger\<close> finds no credentials. Every \<^verbatim>\<open>throw\<close>
  inside the \<^verbatim>\<open>try\<close> block becomes the status 500 of the \<^verbatim>\<open>catch\<close> block.
  For a Git source \<^verbatim>\<open>sourceConfig.repoUrl\<close> is the source identifier itself.
\<close>

definition setWebhookIds :: "string \<Rightarrow> string \<Rightarrow> IngestionTrigger \<Rightarrow> IngestionTrigger" where
  "setWebhookIds extId sec trg =
     (case trg of
        Webhook tr \<Rightarrow> Webhook (tr\<lparr>externalWebhookId := Some extId, secret := Some sec\<rparr>)
      | _ \<Rightarrow> trg)"

definition newWebhookEntry ::
  "string \<Rightarrow> string \<Rightarrow> string \<Rightarrow> string \<Rightarrow> string \<Rightarrow> WebhookRegistrationResult \<Rightarrow> WebhookRegistryEntry" where
  "newWebhookEntry sourceIdentifier endpoint sec extId taskId registrationStatus =
     \<lparr>e_sourceIdentifier = sourceIdentifier,
      e_endpointId = endpoint,
      e_secret = sec,
      e_externalWebhookId = extId,
      e_registeredTasks = [taskId],
      e_webhookFlag = True,
      e_startPageToken = orElse (reg_startpageToken registrationStatus) None,
      e_nextPageToken = orElse (reg_nextPageToken registrationStatus) None,
      e_otherCrawlerSpecificTokens = orElse (reg_otherCrawlerSpecificTokens registrationStatus) None\<rparr>"

text \<open>\<^verbatim>\<open>{ trigger: trigger, ...newWebhookEntry }\<close> assigned onto the stored task.\<close>

definition assignEntry ::
  "IngestionTrigger \<Rightarrow> WebhookRegistryEntry \<Rightarrow> IngestionTaskDefinition \<Rightarrow> IngestionTaskDefinition" where
  "assignEntry trg entry t =
     t\<lparr>t_trigger := trg,
       t_sourceIdentifier := Some (e_sourceIdentifier entry),
       t_endpointId := Some (e_endpointId entry),
       t_secret := Some (e_secret entry),
       t_externalWebhookId := Some (e_externalWebhookId entry),
       t_registeredTasks := Some (e_registeredTasks entry),
       t_webhookFlag := Some (e_webhookFlag entry),
       t_startPageToken := e_startPageToken entry,
       t_nextPageToken := e_nextPageToken entry,
       t_otherCrawlerSpecificTokens := e_otherCrawlerSpecificTokens entry\<rparr>"

definition registerExternally ::
  "World \<Rightarrow> IngestionTaskDefinition \<Rightarrow> string \<Rightarrow> string \<Rightarrow> string \<Rightarrow> State
     \<Rightarrow> StatusData GSStatus \<times> State" where
  "registerExternally w taskDefinition sourceIdentifier resource who s =
     (let sec = randomSecret w; prefix = ''Failed to register webhook: '' in
      case t_trigger taskDefinition of
        Webhook tr \<Rightarrow>
          (case credentials tr of
             None \<Rightarrow> (failed500 prefix (who @ '' webhook registration requires credentials in trigger.''), s)
           | Some cred \<Rightarrow>
               if cred = []
               then (failed500 prefix (who @ '' webhook registration requires credentials in trigger.''), s)
               else
                 (let registrationStatus =
                        apiRegisterWebhook w (pluginType (t_source taskDefinition)) resource
                          (callbackurl tr) sec cred
                  in if \<not> reg_success registrationStatus \<or> \<not> truthy (reg_externalId registrationStatus)
                     then (failed500 prefix (''External webhook registration failed: '' @
                             orDefault (reg_error registrationStatus) ''Unknown error''), s)
                     else
                       (let extId = orDefault (reg_externalId registrationStatus) [];
                            entry = newWebhookEntry sourceIdentifier (endpointId tr) sec extId
                                      (t_id taskDefinition) registrationStatus;
                            s1 = saveWebhookRegistration entry s;
                            s2 = updateTask (t_id taskDefinition)
                                   (assignEntry (setWebhookIds extId sec (t_trigger taskDefinition)) entry) s1
                        in (newGSStatus True 200
                              (''Webhook registered successfully for '' @ quoted sourceIdentifier @ ''.'') None,
                            s2))))
      | _ \<Rightarrow> (failed500 prefix (who @ '' webhook registration requires credentials in trigger.''), s))"

definition registerWebhook ::
  "World \<Rightarrow> IngestionTaskDefinition \<Rightarrow> State \<Rightarrow> StatusData GSStatus \<times> State" where
  "registerWebhook w taskDefinition s =
     (let sourceConfig = config (t_source taskDefinition);
          pt = pluginType (t_source taskDefinition);
          taskId = t_id taskDefinition
      in case getSourceIdentifier pt sourceConfig of
        None \<Rightarrow>
          (newGSStatus False 400
             (''Webhook registration not supported or source identifier missing for plugin type ''
                @ quoted pt @ ''.'') None, s)
      | Some sourceIdentifier \<Rightarrow>
          if sourceIdentifier = [] then
            (newGSStatus False 400
               (''Webhook registration not supported or source identifier missing for plugin type ''
                  @ quoted pt @ ''.'') None, s)
          else
            (case getWebhookRegistration s sourceIdentifier of
               Some existingWebhookEntry \<Rightarrow>
                 (let s1 = (if taskId \<notin> set (e_registeredTasks existingWebhookEntry)
                            then updateWebhookRegistration sourceIdentifier
                                   (\<lambda>e. e\<lparr>e_registeredTasks := e_registeredTasks existingWebhookEntry @ [taskId],
                                          e_webhookFlag := True\<rparr>) s
                            else s);
                      s2 = updateTask taskId
                             (\<lambda>t. t\<lparr>t_trigger := setWebhookIds (e_externalWebhookId existingWebhookEntry)
                                       (e_secret existingWebhookEntry) (t_trigger taskDefinition)\<rparr>) s1
                  in (newGSStatus True 200
                        (''Task associated with existing webhook for '' @ quoted sourceIdentifier @ ''.'') None,
                      s2))
             | None \<Rightarrow>
                 if pt = ''git-crawler'' then
                   registerExternally w taskDefinition sourceIdentifier
                     (extractRepoNameFromUrl w sourceIdentifier) ''Git crawler'' s
                 else if pt = ''googledrive-crawler'' then
                   registerExternally w taskDefinition sourceIdentifier
                     sourceIdentifier ''Google Drive crawler'' s
                 else
                   (newGSStatus False 400
                      ''Unsupported webhook plugin type for external registration.'' None, s)))"

text \<open>
  \<^verbatim>\<open>deregisterWebhook\<close>. The task id is filtered out of \<open>registeredTasks\<close> and the entry
  is written before the provider is called; no branch writes the id back.
  \<^verbatim>\<open>new Error(undefined).message\<close> is the empty string.
\<close>

definition deregisterExternally ::
  "World \<Rightarrow> string \<Rightarrow> string \<Rightarrow> WebhookTrigger \<Rightarrow> WebhookRegistryEntry \<Rightarrow> string \<Rightarrow> string \<Rightarrow> State
     \<Rightarrow> StatusData GSStatus \<times> State" where
  "deregisterExternally w pt sourceIdentifier tr webhookEntry resource who s =
     (let prefix = ''Failed to deregister webhook: '' in
      case credentials tr of
        None \<Rightarrow> (failed500 prefix (who @ '' webhook deregistration requires credentials in trigger.''), s)
      | Some cred \<Rightarrow>
          if cred = []
          then (failed500 prefix (who @ '' webhook deregistration requires credentials in trigger.''), s)
          else
            (let deregistrationStatus =
                   apiDeregisterWebhook w pt resource (e_externalWebhookId webhookEntry) cred
             in if \<not> dereg_success deregistrationStatus
                then (failed500 prefix (case dereg_message deregistrationStatus of None \<Rightarrow> [] | Some m \<Rightarrow> m), s)
                else (newGSStatus True 200 ''Webhook deregistered successfully.'' None,
                      deleteWebhookRegistration sourceIdentifier s)))"

definition deregisterWebhook :: "World \<Rightarrow> string \<Rightarrow> State \<Rightarrow> StatusData GSStatus \<times> State" where
  "deregisterWebhook w taskId s =
     (let notFound = newGSStatus False 404
            (''Task with ID '' @ taskId @ '' not found or is not a webhook task.'') None
      in case getTask s taskId of
        None \<Rightarrow> (notFound, s)
      | Some task \<Rightarrow>
          (case t_trigger task of
             Webhook tr \<Rightarrow>
               (let sourceConfig = config (t_source task);
                    pt = pluginType (t_source task);
                    unsupported = newGSStatus False 400
                      (''Webhook deregistration not supported or source identifier missing for plugin type ''
                         @ quoted pt @ ''.'') None
                in case getSourceIdentifier pt sourceConfig of
                  None \<Rightarrow> (unsupported, s)
                | Some sourceIdentifier \<Rightarrow>
                    if sourceIdentifier = [] then (unsupported, s)
                    else
                      (case getWebhookRegistration s sourceIdentifier of
                         None \<Rightarrow> (newGSStatus True 200 ''Webhook already deregistered.'' None, s)
                       | Some webhookEntry \<Rightarrow>
                           (let updatedRegisteredTasks =
                                  filter (\<lambda>i. i \<noteq> taskId) (e_registeredTasks webhookEntry);
                                s1 = updateWebhookRegistration sourceIdentifier
                                       (\<lambda>e. e\<lparr>e_registeredTasks := updatedRegisteredTasks\<rparr>) s
                            in if length updatedRegisteredTasks = 0 then
                                 (if e_externalWebhookId webhookEntry = [] then
                                    (newGSStatus False 500
                                       ''Cannot deregister webhook: external ID missing.'' None, s1)
                                  else if pt = ''git-crawler'' then
                                    deregisterExternally w pt sourceIdentifier tr webhookEntry
                                      (extractRepoNameFromUrl w sourceIdentifier) ''Git crawler'' s1
                                  else if pt = ''googledrive-crawler'' then
                                    deregisterExternally w pt sourceIdentifier tr webhookEntry
                                      (e_secret webhookEntry) ''Google Drive crawler'' s1
                                  else
                                    (newGSStatus False 400
                                       ''Unsupported webhook plugin type for external deregistration.'' None, s1))
                               else
                                 (newGSStatus True 200
                                    ''Task removed, but other tasks are still using this webhook.'' None, s1))))
           | _ \<Rightarrow> (notFound, s)))"

section \<open>Task CRUD\<close>

definition scheduleTask ::
  "World \<Rightarrow> IngestionTaskDefinition \<Rightarrow> State \<Rightarrow> StatusData GSStatus \<times> State" where
  "scheduleTask w taskDefinition s =
     (let taskId = (if t_id taskDefinition \<noteq> [] then t_id taskDefinition else uuidv4 w) in
      if getTask s taskId \<noteq> None then
        (newGSStatus False 409 (''Task '' @ quoted taskId @ '' already exists.'') None, s)
      else
        (let taskToSave = taskDefinition\<lparr>t_id := taskId, t_currentStatus := Some SCHEDULED,
                            t_lastRun := None, t_lastRunStatus := None\<rparr>;
             s1 = emit (TASK_SCHEDULED taskToSave) (saveTask taskToSave s);
             scheduled = newGSStatus True 200 ''Task scheduled successfully.'' None
         in if t_enabled taskToSave then
              (case t_trigger taskToSave of
                 Webhook tr \<Rightarrow>
                   (let (registrationStatus, s2) = registerWebhook w taskToSave s1 in
                    if \<not> success registrationStatus then
                      (registrationStatus,
                       updateTask taskId
                         (\<lambda>t. t\<lparr>t_currentStatus := Some FAILED,
                                t_lastRunStatus := Some registrationStatus\<rparr>) s2)
                    else (scheduled, s2))
               | _ \<Rightarrow> (scheduled, s1))
            else (scheduled, s1)))"

text \<open>
  \<^verbatim>\<open>deleteTask\<close>. \<^verbatim>\<open>res\<close> is assigned only for a webhook trigger, and \<^verbatim>\<open>!res?.success\<close>
  is true when \<^verbatim>\<open>res\<close> is undefined.
\<close>

definition deleteTask :: "World \<Rightarrow> string \<Rightarrow> State \<Rightarrow> StatusData GSStatus \<times> State" where
  "deleteTask w taskId s =
     (case getTask s taskId of
        None \<Rightarrow> (newGSStatus False 404 (''Task with ID '' @ taskId @ '' not found.'') None, s)
      | Some task \<Rightarrow>
          (let (res, s1) =
                 (case t_trigger task of
                    Webhook tr \<Rightarrow> (let (r, s') = deregisterWebhook w taskId s in (Some r, s'))
                  | _ \<Rightarrow> (None, s))
           in if \<not> (case res of None \<Rightarrow> False | Some r \<Rightarrow> success r) then
                (newGSStatus False 403 ''error in deleting task'' None, s1)
              else
                (newGSStatus True 200 ''Task deleted successfully.'' None,
                 emit (TASK_DELETED taskId) (db_deleteTask taskId s1))))"

section \<open>The orchestrator\<close>

text \<open>
  An \<^verbatim>\<open>IngestionOrchestrator\<close> instance: the source instance is known by the source
  description it was built from, the transformer by the plugin type it was registered
  under, the destination instance by the task's destination description.
\<close>

record Orchestrator =
  sourceDataSource :: "PluginSpec option"
  o_dataTransformer :: "string option"
  o_destination :: "PluginSpec option"
  o_taskId :: string

definition execData :: "nat option \<Rightarrow> AnyData option \<Rightarrow> StatusData" where
  "execData n d = \<lparr>itemsProcessed = n, d_data = d, d_startPageToken = None,
     d_nextPageToken = None, d_otherCrawlerSpecificTokens = None\<rparr>"

text \<open>The outer \<^verbatim>\<open>catch\<close> of \<^verbatim>\<open>executeTask\<close>; \<^verbatim>\<open>totalItemsProcessed\<close> is still 0 wherever
  an error can be thrown.\<close>

definition executeFailed :: "string \<Rightarrow> string \<Rightarrow> State \<Rightarrow> StatusData GSStatus \<times> State" where
  "executeFailed taskId errorText s =
     (let failureStatus = newGSStatus False 500
            (''Ingestion task '' @ taskId @ '' failed: '' @ errorText)
            (Some (execData (Some 0) (Some (Text errorText))))
      in (failureStatus, emit (TASK_FAILED taskId (FailStatus failureStatus)) s))"

definition flattenSourceResult :: "SourceData option \<Rightarrow> RawItem list" where
  "flattenSourceResult d =
     (case d of
        None \<Rightarrow> []
      | Some sd \<Rightarrow>
          (case sd_data sd of
             Some (RawArray xs) \<Rightarrow> map Item xs
           | Some (RawScalar x) \<Rightarrow> if x \<noteq> [] then [Item x] else [Whole sd]
           | None \<Rightarrow> [Whole sd]))"

definition deliver ::
  "World \<Rightarrow> Orchestrator \<Rightarrow> IngestionData list \<Rightarrow> State \<Rightarrow> StatusData GSStatus \<times> State" where
  "deliver w orch transformedData s =
     (let taskId = o_taskId orch;
          completed = (\<lambda>s'.
            (let successStatus = newGSStatus True 200 ''Ingestion task completed successfully.''
                   (Some (execData (Some (length transformedData)) None))
             in (successStatus, emit (TASK_COMPLETED taskId successStatus) s')))
      in case o_destination orch of
        None \<Rightarrow> completed s
      | Some dest \<Rightarrow>
          (let s1 = record_call (DestinationProcessData taskId transformedData) s in
           case destinationProcessData w dest transformedData of
             Inl sendError \<Rightarrow>
               (let failureStatus = newGSStatus False 500
                      (''Error during destination processing for task '' @ taskId @ '': '' @ sendError)
                      (Some (execData (Some 0) (Some (Text sendError))))
                in (failureStatus, emit (TASK_FAILED taskId (FailStatus failureStatus)) s1))
           | Inr sendResult \<Rightarrow>
               if \<not> sr_success sendResult then
                 (let failureStatus = newGSStatus False 500
                        (''Destination processing failed for task '' @ taskId @ '': '' @ sr_message sendResult)
                        (Some (execData (Some 0) (map_option Text (sr_data sendResult))))
                  in (failureStatus, emit (TASK_FAILED taskId (FailStatus failureStatus)) s1))
               else completed (emit (DATA_PROCESSED transformedData taskId) s1)))"

definition executeTask ::
  "World \<Rightarrow> Orchestrator \<Rightarrow> Payload option \<Rightarrow> State \<Rightarrow> StatusData GSStatus \<times> State" where
  "executeTask w orch initialPayload s =
     (let taskId = o_taskId orch in
      case (sourceDataSource orch, o_dataTransformer orch) of
        (Some src, Some tr) \<Rightarrow>
          (case sourceInitClient w src of
             Some err \<Rightarrow> executeFailed taskId err s
           | None \<Rightarrow>
               (let s1 = record_call (SourceExecute taskId initialPayload) s in
                case sourceExecute w src initialPayload of
                  Inl err \<Rightarrow> executeFailed taskId err s1
                | Inr sourceResultStatus \<Rightarrow>
                    if success sourceResultStatus then
                      (let rawData = flattenSourceResult (data sourceResultStatus);
                           s2 = emit (DATA_FETCHED rawData taskId) s1;
                           payloadWithFetchedAt =
                             (case initialPayload of None \<Rightarrow> emptyPayload | Some p \<Rightarrow> p)
                               \<lparr>p_fetchedAt := Some (fetchedAtIso w taskId)\<rparr>
                       in case dataTransformer w tr rawData payloadWithFetchedAt of
                            Inl err \<Rightarrow> executeFailed taskId err s2
                          | Inr transformedData \<Rightarrow>
                              (let s3 = emit (DATA_TRANSFORMED transformedData taskId) s2 in
                               if length transformedData = 0 then
                                 (let status = newGSStatus True 200
                                        ''Ingestion task completed: No data from source.''
                                        (Some (execData (Some 0) None))
                                  in (status, emit (TASK_COMPLETED taskId status) s3))
                               else deliver w orch transformedData s3))
                    else
                      (let errorMessage = ''Source execution failed for task '' @ taskId @ '': ''
                             @ message sourceResultStatus
                       in (newGSStatus False 500 errorMessage
                             (Some (execData None (Some (FromSource (data sourceResultStatus))))),
                           emit (TASK_FAILED taskId (FailPlain errorMessage (data sourceResultStatus))) s1))))
      | _ \<Rightarrow>
          (let errorMessage =
                 ''Orchestrator not fully configured. DataSource and dataTransformer are required.''
           in (newGSStatus False 400 errorMessage None,
               emit (TASK_FAILED taskId (FailPlain errorMessage None)) s)))"

section \<open>Running a task\<close>

fun trig_endpointId :: "IngestionTrigger \<Rightarrow> string option" where
  "trig_endpointId (Webhook tr) = Some (endpointId tr)"
| "trig_endpointId _ = None"

fun trig_secret :: "IngestionTrigger \<Rightarrow> string option" where
  "trig_secret (Webhook tr) = secret tr"
| "trig_secret _ = None"

fun trig_externalWebhookId :: "IngestionTrigger \<Rightarrow> string option" where
  "trig_externalWebhookId (Webhook tr) = externalWebhookId tr"
| "trig_externalWebhookId _ = None"

text \<open>
  The cursor write-back at the end of \<^verbatim>\<open>runOrchestrator\<close>: the three properties are
  read from the \<^verbatim>\<open>data\<close> of the status that \<^verbatim>\<open>executeTask\<close> returned. The entry created
  when none exists takes its fields from the trigger, whatever its type.
\<close>

definition writeBackTokens ::
  "IngestionTaskDefinition \<Rightarrow> StatusData GSStatus \<Rightarrow> State \<Rightarrow> State" where
  "writeBackTokens taskDefinition finalStatus s =
     (case (getSourceIdentifier (pluginType (t_source taskDefinition)) (config (t_source taskDefinition)),
            data finalStatus) of
        (Some sourceIdentifier, Some d) \<Rightarrow>
          if sourceIdentifier \<noteq> []
             \<and> (d_startPageToken d \<noteq> None \<or> d_nextPageToken d \<noteq> None
                  \<or> d_otherCrawlerSpecificTokens d \<noteq> None)
          then
            (let s1 = (case getWebhookRegistration s sourceIdentifier of
                         Some webhookEntry \<Rightarrow> s
                       | None \<Rightarrow>
                           saveWebhookRegistration
                             \<lparr>e_sourceIdentifier = sourceIdentifier,
                              e_endpointId = orDefault (trig_endpointId (t_trigger taskDefinition)) ''unknown'',
                              e_secret = orDefault (trig_secret (t_trigger taskDefinition)) ''unknown'',
                              e_externalWebhookId =
                                orDefault (trig_externalWebhookId (t_trigger taskDefinition)) ''unknown'',
                              e_registeredTasks = [t_id taskDefinition],
                              e_webhookFlag = True,
                              e_startPageToken = None,
                              e_nextPageToken = None,
                              e_otherCrawlerSpecificTokens = None\<rparr> s)
             in updateWebhookRegistration sourceIdentifier
                  (\<lambda>e. e\<lparr>e_startPageToken :=
                            (if d_startPageToken d \<noteq> None then d_startPageToken d else e_startPageToken e),
                          e_nextPageToken :=
                            (if d_nextPageToken d \<noteq> None then d_nextPageToken d else e_nextPageToken e),
                          e_otherCrawlerSpecificTokens :=
                            (if d_otherCrawlerSpecificTokens d \<noteq> None then d_otherCrawlerSpecificTokens d
                             else e_otherCrawlerSpecificTokens e)\<rparr>) s1)
          else s
      | _ \<Rightarrow> s)"

text \<open>
  \<^verbatim>\<open>runOrchestrator\<close>. The only call outside a \<^verbatim>\<open>try\<close> that can throw is the
  destination's \<^verbatim>\<open>init\<close>; the error then leaves the function (\<open>Inl\<close>).
\<close>

definition runOrchestrator ::
  "World \<Rightarrow> IngestionTaskDefinition \<Rightarrow> Payload option \<Rightarrow> State
     \<Rightarrow> (string + StatusData GSStatus) \<times> State" where
  "runOrchestrator w taskDefinition initialPayload s =
     (let taskId = t_id taskDefinition;
          s1 = emit (TASK_TRIGGERED taskId) s;
          s2 = updateTask taskId (\<lambda>t. t\<lparr>t_currentStatus := Some RUNNING\<rparr>) s1
      in if pluginType (t_source taskDefinition) \<notin> set (registeredSources s2) then
           (let status = newGSStatus False 500
                  (''Orchestrator failed: Source plugin '' @ quoted (pluginType (t_source taskDefinition))
                     @ '' not found for task '' @ quoted taskId) None;
                s3 = emit (TASK_FAILED taskId (FailStatus status)) s2
            in (Inr status,
                updateTask taskId
                  (\<lambda>t. t\<lparr>t_currentStatus := Some FAILED, t_lastRunStatus := Some status\<rparr>) s3))
         else
           (let destinationInstance =
                  (case t_destination taskDefinition of
                     None \<Rightarrow> None
                   | Some dest \<Rightarrow>
                       if pluginType dest \<in> set (registeredDestinations s2) then Some dest else None)
            in case (case destinationInstance of None \<Rightarrow> None | Some dest \<Rightarrow> destinationInit w dest) of
                 Some err \<Rightarrow> (Inl err, s2)
               | None \<Rightarrow>
                   (let orch = \<lparr>sourceDataSource = Some (t_source taskDefinition),
                                o_dataTransformer = Some (pluginType (t_source taskDefinition)),
                                o_destination = destinationInstance,
                                o_taskId = taskId\<rparr>;
                        (finalStatus, s3) = executeTask w orch initialPayload s2;
                        s4 = (if success finalStatus then
                                updateTask taskId
                                  (\<lambda>t. t\<lparr>t_currentStatus := Some COMPLETED,
                                         t_lastRun := Some (runFinishedAt w taskId),
                                         t_lastRunStatus := Some finalStatus\<rparr>)
                                  (emit (TASK_COMPLETED taskId finalStatus) s3)
                              else
                                updateTask taskId
                                  (\<lambda>t. t\<lparr>t_currentStatus := Some FAILED,
                                         t_lastRun := Some (runFinishedAt w taskId),
                                         t_lastRunStatus := Some finalStatus\<rparr>)
                                  (emit (TASK_FAILED taskId (FailStatus finalStatus)) s3))
                    in (Inr finalStatus, writeBackTokens taskDefinition finalStatus s4))))"

text \<open>The cursors of the registry entry of a source identifier, spread into a payload.\<close>

definition withTokens :: "WebhookRegistryEntry \<Rightarrow> Payload \<Rightarrow> Payload" where
  "withTokens webhookEntry p =
     p\<lparr>p_startPageToken := e_startPageToken webhookEntry,
       p_nextPageToken := e_nextPageToken webhookEntry,
       p_otherCrawlerSpecificTokens := e_otherCrawlerSpecificTokens webhookEntry\<rparr>"

definition lookupEntry :: "State \<Rightarrow> IngestionTaskDefinition \<Rightarrow> WebhookRegistryEntry option" where
  "lookupEntry s task =
     (case getSourceIdentifier (pluginType (t_source task)) (config (t_source task)) of
        None \<Rightarrow> None
      | Some sourceIdentifier \<Rightarrow>
          if sourceIdentifier = [] then None else getWebhookRegistration s sourceIdentifier)"

definition triggerManualTask ::
  "World \<Rightarrow> string \<Rightarrow> Payload option \<Rightarrow> State \<Rightarrow> (string + StatusData GSStatus) \<times> State" where
  "triggerManualTask w taskId initialPayload s =
     (case getTask s taskId of
        None \<Rightarrow> (Inr (newGSStatus False 404 (''Task with ID '' @ taskId @ '' not found.'') None), s)
      | Some task \<Rightarrow>
          if \<not> t_enabled task then
            (Inr (newGSStatus False 403
                    (''Task with ID '' @ taskId @ '' is disabled and cannot be triggered manually.'') None), s)
          else
            (case lookupEntry s task of
               Some webhookEntry \<Rightarrow>
                 runOrchestrator w task
                   (Some (withTokens webhookEntry
                            (case initialPayload of None \<Rightarrow> emptyPayload | Some p \<Rightarrow> p))) s
             | None \<Rightarrow> runOrchestrator w task initialPayload s))"

section \<open>Updating, enabling and disabling a task\<close>

text \<open>
  The patch of \<^verbatim>\<open>updateTask\<close> (a \<^verbatim>\<open>Partial<IngestionTaskDefinition>\<close>) is the list of
  the properties it sets; where a property is listed twice the later value counts.
  \<open>updates_enabled\<close> is \<^verbatim>\<open>updates.enabled\<close>.
\<close>

datatype FieldUpdate =
    SetId string
  | SetName string
  | SetEnabled bool
  | SetSource PluginSpec
  | SetDestination "PluginSpec option"
  | SetTrigger IngestionTrigger
  | SetCurrentStatus "IngestionTaskStatus option"
  | SetLastRun "int option"
  | SetLastRunStatus "StatusData GSStatus option"
  | SetStartPageToken "string option"
  | SetNextPageToken "string option"
  | SetOtherCrawlerSpecificTokens "string option"

fun assignField :: "FieldUpdate \<Rightarrow> IngestionTaskDefinition \<Rightarrow> IngestionTaskDefinition" where
  "assignField (SetId v) t = t\<lparr>t_id := v\<rparr>"
| "assignField (SetName v) t = t\<lparr>t_name := v\<rparr>"
| "assignField (SetEnabled v) t = t\<lparr>t_enabled := v\<rparr>"
| "assignField (SetSource v) t = t\<lparr>t_source := v\<rparr>"
| "assignField (SetDestination v) t = t\<lparr>t_destination := v\<rparr>"
| "assignField (SetTrigger v) t = t\<lparr>t_trigger := v\<rparr>"
| "assignField (SetCurrentStatus v) t = t\<lparr>t_currentStatus := v\<rparr>"
| "assignField (SetLastRun v) t = t\<lparr>t_lastRun := v\<rparr>"
| "assignField (SetLastRunStatus v) t = t\<lparr>t_lastRunStatus := v\<rparr>"
| "assignField (SetStartPageToken v) t = t\<lparr>t_startPageToken := v\<rparr>"
| "assignField (SetNextPageToken v) t = t\<lparr>t_nextPageToken := v\<rparr>"
| "assignField (SetOtherCrawlerSpecificTokens v) t = t\<lparr>t_otherCrawlerSpecificTokens := v\<rparr>"

text \<open>\<^verbatim>\<open>{ ...existingTask, ...updates }\<close>.\<close>

definition applyUpdates :: "FieldUpdate list \<Rightarrow> IngestionTaskDefinition \<Rightarrow> IngestionTaskDefinition" where
  "applyUpdates updates existingTask = fold assignField updates existingTask"

fun updates_enabled :: "FieldUpdate list \<Rightarrow> bool option" where
  "updates_enabled [] = None"
| "updates_enabled (SetEnabled v # us) =
     (case updates_enabled us of None \<Rightarrow> Some v | Some later \<Rightarrow> Some later)"
| "updates_enabled (u # us) = updates_enabled us"

fun isWebhook :: "IngestionTrigger \<Rightarrow> bool" where
  "isWebhook (Webhook tr) = True"
| "isWebhook _ = False"

text \<open>
  \<^verbatim>\<open>registerWebhook(updatedTask)\<close> as \<^verbatim>\<open>updateTask\<close> calls it. \<^verbatim>\<open>updatedTask\<close> is a copy
  of the stored object that shares its \<^verbatim>\<open>trigger\<close>: what \<^verbatim>\<open>registerWebhook\<close> assigns to
  \<^verbatim>\<open>trigger.externalWebhookId\<close> and \<^verbatim>\<open>trigger.secret\<close> (the values of the registry entry,
  on both successful paths) also shows on the object stored under \<open>key\<close>, even when the
  patch has changed the id and the write by id goes elsewhere.
\<close>

definition registerShared :: "World \<Rightarrow> string \<Rightarrow> IngestionTaskDefinition \<Rightarrow> State \<Rightarrow> State" where
  "registerShared w key taskDefinition s =
     (case registerWebhook w taskDefinition s of
        (registrationStatus, s1) \<Rightarrow>
          if success registrationStatus then
            (case lookupEntry s1 taskDefinition of
               Some webhookEntry \<Rightarrow>
                 updateTask key
                   (\<lambda>t. t\<lparr>t_trigger := setWebhookIds (e_externalWebhookId webhookEntry)
                             (e_secret webhookEntry) (t_trigger taskDefinition)\<rparr>) s1
             | None \<Rightarrow> s1)
          else s1)"

text \<open>
  The block \<^verbatim>\<open>// Handle webhook changes\<close> of \<^verbatim>\<open>updateTask\<close>. \<^verbatim>\<open>updateTask\<close> awaits
  \<^verbatim>\<open>deregisterWebhook\<close> and \<^verbatim>\<open>registerWebhook\<close> and drops what they return; the first
  component is the list of statuses returned by the \<^verbatim>\<open>deregisterWebhook\<close> calls.
  \<^verbatim>\<open>oldSourceIdentifier !== newSourceIdentifier\<close> compares two possibly undefined
  strings.
\<close>

definition handleWebhookChanges ::
  "World \<Rightarrow> string \<Rightarrow> IngestionTaskDefinition \<Rightarrow> IngestionTaskDefinition \<Rightarrow> FieldUpdate list \<Rightarrow> State
     \<Rightarrow> StatusData GSStatus list \<times> State" where
  "handleWebhookChanges w taskId oldTask updatedTask updates s =
     (if isWebhook (t_trigger oldTask) \<and> \<not> isWebhook (t_trigger updatedTask) then
        (case deregisterWebhook w (t_id oldTask) s of (r, s1) \<Rightarrow> ([r], s1))
      else if isWebhook (t_trigger updatedTask) then
        (let oldSourceIdentifier =
               getSourceIdentifier (pluginType (t_source oldTask)) (config (t_source oldTask));
             newSourceIdentifier =
               getSourceIdentifier (pluginType (t_source updatedTask)) (config (t_source updatedTask))
         in if oldSourceIdentifier \<noteq> newSourceIdentifier
               \<or> \<not> truthy (trig_externalWebhookId (t_trigger updatedTask)) then
              (case (if truthy oldSourceIdentifier
                     then (case deregisterWebhook w (t_id oldTask) s of (r, s1) \<Rightarrow> ([r], s1))
                     else ([], s)) of
                 (dropped, s1) \<Rightarrow>
                   (dropped,
                    if t_enabled updatedTask then registerShared w taskId updatedTask s1 else s1))
            else if updates_enabled updates = Some False then
              (case deregisterWebhook w taskId s of (r, s1) \<Rightarrow> ([r], s1))
            else if updates_enabled updates = Some True
                    \<and> \<not> truthy (trig_externalWebhookId (t_trigger updatedTask)) then
              ([], registerShared w taskId updatedTask s)
            else ([], s))
      else ([], s))"

text \<open>
  The manager's \<^verbatim>\<open>updateTask\<close>, with the statuses it drops as a second result.
  \<^verbatim>\<open>dbService.updateTask(taskId, updatedTask)\<close> assigns every property of
  \<^verbatim>\<open>updatedTask\<close>, the id included, to the object stored under \<open>taskId\<close>.
\<close>

definition updateTaskFlow ::
  "World \<Rightarrow> string \<Rightarrow> FieldUpdate list \<Rightarrow> State
     \<Rightarrow> (StatusData GSStatus \<times> StatusData GSStatus list) \<times> State" where
  "updateTaskFlow w taskId updates s =
     (case getTask s taskId of
        None \<Rightarrow> ((newGSStatus False 404 (''Task with ID '' @ taskId @ '' not found.'') None, []), s)
      | Some existingTask \<Rightarrow>
          (let oldTask = existingTask;
               updatedTask = applyUpdates updates existingTask;
               s1 = emit (TASK_UPDATED updatedTask) (updateTask taskId (\<lambda>t. updatedTask) s)
           in case handleWebhookChanges w taskId oldTask updatedTask updates s1 of
                (dropped, s2) \<Rightarrow>
                  ((newGSStatus True 200 ''Task updated successfully.'' None, dropped), s2)))"

definition manager_updateTask ::
  "World \<Rightarrow> string \<Rightarrow> FieldUpdate list \<Rightarrow> State \<Rightarrow> StatusData GSStatus \<times> State" where
  "manager_updateTask w taskId updates s =
     (case updateTaskFlow w taskId updates s of ((status, dropped), s') \<Rightarrow> (status, s'))"

definition enableTaskFlow ::
  "World \<Rightarrow> string \<Rightarrow> State \<Rightarrow> (StatusData GSStatus \<times> StatusData GSStatus list) \<times> State" where
  "enableTaskFlow w taskId s =
     (case getTask s taskId of
        None \<Rightarrow> ((newGSStatus False 404 (''Task with ID '' @ taskId @ '' not found.'') None, []), s)
      | Some task \<Rightarrow>
          if t_enabled task then ((newGSStatus True 200 ''Task is already enabled.'' None, []), s)
          else updateTaskFlow w taskId [SetEnabled True] s)"

definition enableTask :: "World \<Rightarrow> string \<Rightarrow> State \<Rightarrow> StatusData GSStatus \<times> State" where
  "enableTask w taskId s =
     (case enableTaskFlow w taskId s of ((status, dropped), s') \<Rightarrow> (status, s'))"

definition disableTaskFlow ::
  "World \<Rightarrow> string \<Rightarrow> State \<Rightarrow> (StatusData GSStatus \<times> StatusData GSStatus list) \<times> State" where
  "disableTaskFlow w taskId s =
     (case getTask s taskId of
        None \<Rightarrow> ((newGSStatus False 404 (''Task with ID '' @ taskId @ '' not found.'') None, []), s)
      | Some task \<Rightarrow>
          if \<not> t_enabled task then ((newGSStatus True 200 ''Task is already disabled.'' None, []), s)
          else updateTaskFlow w taskId [SetEnabled False] s)"

definition disableTask :: "World \<Rightarrow> string \<Rightarrow> State \<Rightarrow> StatusData GSStatus \<times> State" where
  "disableTask w taskId s =
     (case disableTaskFlow w taskId s of ((status, dropped), s') \<Rightarrow> (status, s'))"

section \<open>Start-up\<close>

text \<open>
  \<^verbatim>\<open>start\<close> walks the stored objects and calls \<^verbatim>\<open>registerWebhook(task)\<close> for the enabled
  webhook tasks. The argument is the stored object itself: besides the writes by id,
  the assignments of \<^verbatim>\<open>registerWebhook\<close> to its argument (the trigger's two ids and, for a
  new registration, the three cursors) land on the object stored under \<open>key\<close>.
\<close>

definition registerStored :: "World \<Rightarrow> string \<Rightarrow> IngestionTaskDefinition \<Rightarrow> State \<Rightarrow> State" where
  "registerStored w key task s =
     (case registerWebhook w task s of
        (registrationStatus, s1) \<Rightarrow>
          if success registrationStatus then
            (case lookupEntry s1 task of
               Some webhookEntry \<Rightarrow>
                 updateTask key
                   (\<lambda>t. (if lookupEntry s task = None
                          then t\<lparr>t_startPageToken := e_startPageToken webhookEntry,
                                 t_nextPageToken := e_nextPageToken webhookEntry,
                                 t_otherCrawlerSpecificTokens := e_otherCrawlerSpecificTokens webhookEntry\<rparr>
                          else t)
                         \<lparr>t_trigger := setWebhookIds (e_externalWebhookId webhookEntry)
                             (e_secret webhookEntry) (t_trigger task)\<rparr>) s1
             | None \<Rightarrow> s1)
          else s1)"

fun startLoop :: "World \<Rightarrow> string list \<Rightarrow> State \<Rightarrow> State" where
  "startLoop w [] s = s"
| "startLoop w (k # ks) s =
     (case getTask s k of
        None \<Rightarrow> startLoop w ks s
      | Some task \<Rightarrow>
          if t_enabled task \<and> isWebhook (t_trigger task)
          then startLoop w ks (registerStored w k task s)
          else startLoop w ks s)"

definition start :: "World \<Rightarrow> State \<Rightarrow> State" where
  "start w s = startLoop w (map fst (tasks s)) s"

section \<open>Webhook verification (processWebhookRequest.ts)\<close>

type_synonym Headers = "(string \<times> string) list"

record WebhookResult =
  wr_success :: bool
  wr_externalResourceId :: "string option"
  wr_rawPayload :: "WebhookPayload option"
  wr_changeType :: "ChangeType option"
  wr_error :: "string option"
  wr_signatureValidated :: bool

definition webhookFailure :: "string \<Rightarrow> bool \<Rightarrow> WebhookResult" where
  "webhookFailure err validated =
     \<lparr>wr_success = False, wr_externalResourceId = None, wr_rawPayload = None,
      wr_changeType = None, wr_error = Some err, wr_signatureValidated = validated\<rparr>"

text \<open>
  The signature check of \<^verbatim>\<open>handleGitWebhook\<close>: \<open>Inl\<close> is the early return with an
  error, \<open>Inr\<close> the value of \<^verbatim>\<open>signatureValidated\<close>. The header is cut at every
  \<^verbatim>\<open>=\<close>; the first two pieces are the algorithm and the hash, and the hash is compared
  with \<^verbatim>\<open>!==\<close>.
\<close>

definition checkGitSignature :: "World \<Rightarrow> Headers \<Rightarrow> string \<Rightarrow> string option \<Rightarrow> string + bool" where
  "checkGitSignature w headers body sec =
     (case sec of
        None \<Rightarrow> Inr False
      | Some secretText \<Rightarrow>
          if secretText = [] then Inr False
          else
            (case orElse (map_of headers ''x-hub-signature-256'') (map_of headers ''x-hub-signature'') of
               None \<Rightarrow> Inr False
             | Some signature \<Rightarrow>
                 if signature = [] then Inr False
                 else
                   (case split_on (CHR ''='') signature of
                      [] \<Rightarrow> Inl ''Unsupported signature algorithm.''
                    | algorithm # rest \<Rightarrow>
                        (let hash = (case rest of [] \<Rightarrow> None | h # hs \<Rightarrow> Some h)
                         in if algorithm \<noteq> ''sha256'' then Inl ''Unsupported signature algorithm.''
                            else if Some (hmacSha256Hex w secretText body) \<noteq> hash
                              then Inl ''Invalid webhook signature.''
                            else Inr True))))"

definition handleGitWebhook :: "World \<Rightarrow> Headers \<Rightarrow> string \<Rightarrow> string option \<Rightarrow> WebhookResult" where
  "handleGitWebhook w headers body sec =
     (case jsonParse w body of
        None \<Rightarrow> webhookFailure ''Invalid JSON payload.'' False
      | Some payload \<Rightarrow>
          (case checkGitSignature w headers body sec of
             Inl err \<Rightarrow> webhookFailure err False
           | Inr signatureValidated \<Rightarrow>
               (let eventType = map_of headers ''x-github-event'';
                    changeType =
                      (if eventType = Some ''push'' then (if gp_deleted payload then DELETE else UPSERT)
                       else if eventType = Some ''pull_request'' then UPSERT
                       else UNKNOWN)
                in case gp_repository_full_name payload of
                     None \<Rightarrow>
                       webhookFailure ''Could not extract externalResourceId (repository full name).''
                         signatureValidated
                   | Some fullName \<Rightarrow>
                       if fullName = [] then
                         webhookFailure ''Could not extract externalResourceId (repository full name).''
                           signatureValidated
                       else
                         \<lparr>wr_success = True,
                          wr_externalResourceId = Some (''https://github.com/'' @ fullName),
                          wr_rawPayload = Some (GitBody payload),
                          wr_changeType = Some changeType,
                          wr_error = None,
                          wr_signatureValidated = signatureValidated\<rparr>)))"

definition handleGDriveWebhook :: "World \<Rightarrow> Headers \<Rightarrow> string \<Rightarrow> string option \<Rightarrow> WebhookResult" where
  "handleGDriveWebhook w headers body expectedToken =
     (if truthy expectedToken \<and>
         (\<not> truthy (map_of headers ''x-goog-channel-id'')
          \<or> map_of headers ''x-goog-channel-id'' \<noteq> expectedToken)
      then webhookFailure ''Invalid channel ID or token mismatch.'' False
      else
        (let signatureValidated = truthy expectedToken;
             resourceUri = map_of headers ''x-goog-resource-uri'';
             externalResourceId =
               (case resourceUri of
                  None \<Rightarrow> None
                | Some uri \<Rightarrow>
                    if uri = [] then None
                    else (case urlParse w uri of
                            None \<Rightarrow> None
                          | Some (hostname, pathname) \<Rightarrow> Some (last (split_on (CHR ''/'') pathname))))
         in if \<not> truthy externalResourceId then
              webhookFailure ''Could not extract actual Drive folder ID from x-goog-resource-uri.''
                signatureValidated
            else
              (let state = map_of headers ''x-goog-resource-state'';
                   changeType =
                     (if state = Some ''exists'' \<or> state = Some ''add'' \<or> state = Some ''update''
                        then UPSERT
                      else if state = Some ''not_exists'' \<or> state = Some ''trash'' then DELETE
                      else UNKNOWN)
               in \<lparr>wr_success = True,
                   wr_externalResourceId = externalResourceId,
                   wr_rawPayload = Some (GDriveBody
                     \<lparr>channelResourceId = map_of headers ''x-goog-resource-id'',
                      resourceState = state,
                      x_goog_channel_id = map_of headers ''x-goog-channel-id'',
                      x_goog_message_number = map_of headers ''x-goog-message-number'',
                      x_goog_resource_state = map_of headers ''x-goog-resource-state'',
                      x_goog_resource_uri = map_of headers ''x-goog-resource-uri''\<rparr>),
                   wr_changeType = Some changeType,
                   wr_error = None,
                   wr_signatureValidated = signatureValidated\<rparr>)))"

text \<open>A request body: an object (given by its \<^verbatim>\<open>JSON.stringify\<close>), a string, or neither.\<close>

datatype RawRequest = ObjectBody string | StringBody string | OtherBody

record ProcessedWebhookResult =
  isValid :: bool
  pr_payload :: "WebhookPayload option"
  pr_externalResourceId :: "string option"
  pr_changeType :: "ChangeType option"
  pr_error :: "string option"

definition processWebhookRequest ::
  "World \<Rightarrow> string \<Rightarrow> Headers \<Rightarrow> string option \<Rightarrow> RawRequest \<Rightarrow> ProcessedWebhookResult" where
  "processWebhookRequest w webhookService headers sec body =
     (case (case body of ObjectBody b \<Rightarrow> Some b | StringBody b \<Rightarrow> Some b | OtherBody \<Rightarrow> None) of
        None \<Rightarrow>
          \<lparr>isValid = False, pr_payload = None, pr_externalResourceId = None,
           pr_changeType = None, pr_error = Some ''Invalid webhook body type.''\<rparr>
      | Some bodyString \<Rightarrow>
          (let result =
                 (if webhookService = ''git-crawler'' then handleGitWebhook w headers bodyString sec
                  else if webhookService = ''googledrive-crawler''
                    then handleGDriveWebhook w headers bodyString sec
                  else webhookFailure (''No handler found for webhook service: '' @ webhookService) False)
           in \<lparr>isValid = (wr_success result \<and> (if truthy sec then wr_signatureValidated result else True)),
               pr_payload = wr_rawPayload result,
               pr_externalResourceId = wr_externalResourceId result,
               pr_changeType = wr_changeType result,
               pr_error =
                 (if truthy (wr_error result) then wr_error result
                  else if wr_success result \<and> \<not> wr_signatureValidated result \<and> truthy sec
                    then Some ''Webhook signature validation skipped or failed.''
                  else None)\<rparr>))"

section \<open>Webhook dispatch\<close>

text \<open>
  The loop of \<^verbatim>\<open>triggerWebhookTask\<close> over the tasks to trigger; only their ids are read
  from the filtered list, the task itself is fetched again. An error thrown by
  \<^verbatim>\<open>runOrchestrator\<close> ends the loop in the \<^verbatim>\<open>catch\<close> of the caller.
\<close>

fun triggerTasksForResource ::
  "World \<Rightarrow> ProcessedWebhookResult \<Rightarrow> string list \<Rightarrow> StatusData GSStatus option \<Rightarrow> State
     \<Rightarrow> (string + StatusData GSStatus option) \<times> State" where
  "triggerTasksForResource w finalProcessedResult [] firstStatus s = (Inr firstStatus, s)"
| "triggerTasksForResource w finalProcessedResult (taskId # rest) firstStatus s =
     (case getTask s taskId of
        None \<Rightarrow> triggerTasksForResource w finalProcessedResult rest firstStatus s
      | Some taskToExecute \<Rightarrow>
          (let currentWebhookState = lookupEntry s taskToExecute;
               initialPayload =
                 \<lparr>p_taskDefinition = Some taskToExecute,
                  p_webhookPayload = pr_payload finalProcessedResult,
                  p_externalResourceId = pr_externalResourceId finalProcessedResult,
                  p_changeType = pr_changeType finalProcessedResult,
                  p_startPageToken = Option.bind currentWebhookState e_startPageToken,
                  p_nextPageToken = Option.bind currentWebhookState e_nextPageToken,
                  p_otherCrawlerSpecificTokens = Option.bind currentWebhookState e_otherCrawlerSpecificTokens,
                  p_fetchedAt = None\<rparr>
           in case runOrchestrator w taskToExecute (Some initialPayload) s of
                (Inl err, s') \<Rightarrow> (Inl err, s')
              | (Inr status, s') \<Rightarrow>
                  triggerTasksForResource w finalProcessedResult rest
                    (if firstStatus = None then Some status else firstStatus) s'))"

definition triggerWebhookTask ::
  "World \<Rightarrow> string \<Rightarrow> RawRequest \<Rightarrow> Headers \<Rightarrow> State \<Rightarrow> StatusData GSStatus \<times> State" where
  "triggerWebhookTask w endpoint rawRequest requestHeaders s =
     (let tasksMatchingEndpoint =
            filter (\<lambda>t. t_enabled t \<and> trig_endpointId (t_trigger t) = Some endpoint) (listAllTasks s)
      in case tasksMatchingEndpoint of
        [] \<Rightarrow>
          (newGSStatus False 404
             (''(from trg webhook)No enabled tasks found for webhook endpoint ID: '' @ endpoint @ ''.'')
             None, s)
      | firstTask # others \<Rightarrow>
          (let webhookService = pluginType (t_source firstTask);
               initialProcessedResult = processWebhookRequest w webhookService requestHeaders None rawRequest
           in if \<not> isValid initialProcessedResult then
                (newGSStatus False 400
                   (orDefault (pr_error initialProcessedResult)
                      (''Preliminary webhook processing failed for endpoint '' @ endpoint @ ''.'')) None, s)
              else
                (case pr_externalResourceId initialProcessedResult of
                   None \<Rightarrow>
                     (newGSStatus False 400
                        (''Webhook processed successfully but could not extract externalResourceId for endpoint ''
                           @ endpoint @ ''.'') None, s)
                 | Some externalResourceId \<Rightarrow>
                     if externalResourceId = [] then
                       (newGSStatus False 400
                          (''Webhook processed successfully but could not extract externalResourceId for endpoint ''
                             @ endpoint @ ''.'') None, s)
                     else
                       (case getWebhookRegistration s externalResourceId of
                          None \<Rightarrow>
                            (newGSStatus True 200
                               (''No webhook registration found for resource '' @ quoted externalResourceId
                                  @ '' linked to endpoint '' @ quoted endpoint @ ''.'') None, s)
                        | Some webhookEntry \<Rightarrow>
                            (let finalProcessedResult =
                                   processWebhookRequest w webhookService requestHeaders
                                     (Some (e_secret webhookEntry)) rawRequest
                             in if \<not> isValid finalProcessedResult then
                                  (newGSStatus False 401
                                     (orDefault (pr_error finalProcessedResult)
                                        ''Webhook request signature validation failed.'') None, s)
                                else if pr_externalResourceId finalProcessedResult
                                          \<noteq> pr_externalResourceId initialProcessedResult then
                                  (newGSStatus False 500
                                     (''Resource ID mismatch after full webhook validation. Initial: ''
                                        @ externalResourceId @ '', Final: ''
                                        @ orDefault (pr_externalResourceId finalProcessedResult) ''undefined'')
                                     None, s)
                                else
                                  (let tasksToTriggerForResource =
                                         filter (\<lambda>task. t_id task \<in> set (e_registeredTasks webhookEntry))
                                           tasksMatchingEndpoint
                                   in if tasksToTriggerForResource = [] then
                                        (newGSStatus True 200
                                           (''Webhook registration for resource '' @ quoted externalResourceId
                                              @ '' exists, but no enabled tasks are currently linked to it.'')
                                           None, s)
                                      else
                                        (case triggerTasksForResource w finalProcessedResult
                                                (map t_id tasksToTriggerForResource) None s of
                                           (Inl err, s') \<Rightarrow>
                                             (newGSStatus False 500
                                                (''Error processing webhook payload: '' @ err) None, s')
                                         | (Inr (Some firstStatus), s') \<Rightarrow> (firstStatus, s')
                                         | (Inr None, s') \<Rightarrow>
                                             (newGSStatus False 500
                                                ''Webhook could not be triggered due to an unknown error.''
                                                None, s'))))))))"

section \<open>Cron dispatch\<close>

text \<open>
  The due test of \<^verbatim>\<open>triggerAllEnabledCronTasks\<close>, in milliseconds:
  \<^verbatim>\<open>previousRunTime > sixtyFiveSecondsAgo && previousRunTime <= now &&
  (!task.lastRun || task.lastRun < previousRunTime)\<close>.
\<close>

definition isDue :: "int \<Rightarrow> int \<Rightarrow> int option \<Rightarrow> bool" where
  "isDue previousRunTime now lastRun =
     (let sixtyFiveSecondsAgo = now - 65 * 1000
      in previousRunTime > sixtyFiveSecondsAgo \<and> previousRunTime \<le> now
         \<and> (case lastRun of None \<Rightarrow> True | Some l \<Rightarrow> l < previousRunTime))"

text \<open>
  The payload of a due cron task. The payload enriched with the cursors of the registry
  entry is built first and then replaced by the assignment
  \<^verbatim>\<open>initialPayload = {taskDefinition: task, webhookPayload: "",}\<close>.
\<close>

definition cronPayload :: "State \<Rightarrow> IngestionTaskDefinition \<Rightarrow> Payload" where
  "cronPayload s task =
     (let enriched = (case lookupEntry s task of
                        Some webhookEntry \<Rightarrow> withTokens webhookEntry emptyPayload
                      | None \<Rightarrow> emptyPayload);
          initialPayload = emptyPayload\<lparr>p_taskDefinition := Some task, p_webhookPayload := Some EmptyText\<rparr>
      in initialPayload)"

text \<open>
  The loop over \<^verbatim>\<open>allTasks\<close>. The array holds the stored objects themselves, so an
  iteration sees what the earlier runs wrote: the loop walks the keys of the table as
  they were at the start and reads each task from the current state. No task is added or
  removed while it runs. The \<^verbatim>\<open>catch\<close> block reports every error as a parse error.
\<close>

type_synonym CronResults = "(string \<times> StatusData GSStatus) list"

fun cronLoop ::
  "World \<Rightarrow> int \<Rightarrow> string list \<Rightarrow> CronResults \<Rightarrow> nat \<Rightarrow> State \<Rightarrow> (CronResults \<times> nat) \<times> State" where
  "cronLoop w now [] results tasksDueCount s = ((results, tasksDueCount), s)"
| "cronLoop w now (k # ks) results tasksDueCount s =
     (case map_of (tasks s) k of
        None \<Rightarrow> cronLoop w now ks results tasksDueCount s
      | Some task \<Rightarrow>
          (case t_trigger task of
             Cron expression \<Rightarrow>
               if t_enabled task then
                 (case cronPrev w expression now of
                    Inl err \<Rightarrow>
                      cronLoop w now ks
                        (results @ [(t_id task,
                           newGSStatus False 500 (''Cron expression parse error: '' @ err) None)])
                        tasksDueCount s
                  | Inr previousRunTime \<Rightarrow>
                      if isDue previousRunTime now (t_lastRun task) then
                        (case runOrchestrator w task (Some (cronPayload s task)) s of
                           (Inl err, s') \<Rightarrow>
                             cronLoop w now ks
                               (results @ [(t_id task,
                                  newGSStatus False 500 (''Cron expression parse error: '' @ err) None)])
                               (tasksDueCount + 1) s'
                         | (Inr status, s') \<Rightarrow>
                             cronLoop w now ks (results @ [(t_id task, status)]) (tasksDueCount + 1) s')
                      else cronLoop w now ks results tasksDueCount s)
               else cronLoop w now ks results tasksDueCount s
           | _ \<Rightarrow> cronLoop w now ks results tasksDueCount s))"

text \<open>
  \<^verbatim>\<open>new Date(ctx.event?.time || new Date().toISOString())\<close>. The time of a Godspeed
  event is a \<^verbatim>\<open>Date\<close> object, which is truthy; through the cast to \<^verbatim>\<open>any\<close> a number or
  a string is read as well. The number 0 and the empty string are falsy, as an absent time
  is: the wall clock is taken. A \<^verbatim>\<open>Date\<close> object and a number are taken to be valid
  times; a string is parsed, and the result is \<open>None\<close> for an invalid date.
\<close>

datatype EventTime = TimeDate int | TimeNumber int | TimeText string

definition currentTime :: "World \<Rightarrow> EventTime option \<Rightarrow> int option" where
  "currentTime w eventTime =
     (case eventTime of
        None \<Rightarrow> Some (wallNow w)
      | Some (TimeDate t) \<Rightarrow> Some t
      | Some (TimeNumber n) \<Rightarrow> if n = 0 then Some (wallNow w) else Some n
      | Some (TimeText x) \<Rightarrow> if x = [] then Some (wallNow w) else dateParse w x)"

text \<open>
  \<^verbatim>\<open>triggerAllEnabledCronTasks\<close>; the argument is \<^verbatim>\<open>ctx.event?.time\<close>. The counts
  interpolated into the two last messages are left out of the message text.
  With an invalid \<^verbatim>\<open>now\<close> no task is due, whatever the parser does: either it throws, or
  the comparison with \<^verbatim>\<open>sixtyFiveSecondsAgo\<close> (an invalid date as well) is false and
  \<^verbatim>\<open>now.toISOString()\<close> throws in the log line of the other branch; both end in the
  \<^verbatim>\<open>catch\<close> block, which leaves \<^verbatim>\<open>tasksDueCount\<close> at 0.
\<close>

definition triggerAllEnabledCronTasks ::
  "World \<Rightarrow> EventTime option \<Rightarrow> State \<Rightarrow> CronResults GSStatus \<times> State" where
  "triggerAllEnabledCronTasks w eventTime s =
     (case currentTime w eventTime of
        None \<Rightarrow> (newGSStatus True 200 ''No enabled cron tasks were due.'' None, s)
      | Some now \<Rightarrow>
          (case cronLoop w now (map fst (tasks s)) [] 0 s of
             ((results, tasksDueCount), s') \<Rightarrow>
               if tasksDueCount = 0 then
                 (newGSStatus True 200 ''No enabled cron tasks were due.'' None, s')
               else
                 (let successful = length (filter (\<lambda>r. success (snd r)) results);
                      failed = length results - successful
                  in if failed > 0 then
                       (newGSStatus False 500 ''Cron triggered tasks; some failed.'' (Some results), s')
                     else
                       (newGSStatus True 200 ''Successfully triggered cron tasks.'' (Some results), s'))))"

section \<open>The operations of the manager\<close>

text \<open>
  The operations a caller of the manager can invoke (the public methods of
  \<^verbatim>\<open>GlobalIngestionLifecycleManager\<close> that read or write the store), the state each of
  them leaves, and the statuses returned by the \<^verbatim>\<open>deregisterWebhook\<close> calls made on its
  behalf.
\<close>

datatype Operation =
    Start
  | ScheduleTask IngestionTaskDefinition
  | UpdateTask string "FieldUpdate list"
  | EnableTask string
  | DisableTask string
  | DeleteTask string
  | GetTask string
  | ListTasks
  | TriggerManualTask string "Payload option"
  | TriggerWebhookTask string RawRequest Headers
  | TriggerAllEnabledCronTasks "EventTime option"
  | RegisterWebhook IngestionTaskDefinition
  | DeregisterWebhook string

fun perform :: "World \<Rightarrow> Operation \<Rightarrow> State \<Rightarrow> State" where
  "perform w Start s = start w s"
| "perform w (ScheduleTask taskDefinition) s = snd (scheduleTask w taskDefinition s)"
| "perform w (UpdateTask taskId updates) s = snd (manager_updateTask w taskId updates s)"
| "perform w (EnableTask taskId) s = snd (enableTask w taskId s)"
| "perform w (DisableTask taskId) s = snd (disableTask w taskId s)"
| "perform w (DeleteTask taskId) s = snd (deleteTask w taskId s)"
| "perform w (GetTask taskId) s = s"
| "perform w ListTasks s = s"
| "perform w (TriggerManualTask taskId initialPayload) s = snd (triggerManualTask w taskId initialPayload s)"
| "perform w (TriggerWebhookTask endpoint rawRequest requestHeaders) s =
     snd (triggerWebhookTask w endpoint rawRequest requestHeaders s)"
| "perform w (TriggerAllEnabledCronTasks eventTime) s = snd (triggerAllEnabledCronTasks w eventTime s)"
| "perform w (RegisterWebhook taskDefinition) s = snd (registerWebhook w taskDefinition s)"
| "perform w (DeregisterWebhook taskId) s = snd (deregisterWebhook w taskId s)"

fun deregistrations :: "World \<Rightarrow> Operation \<Rightarrow> State \<Rightarrow> StatusData GSStatus list" where
  "deregistrations w (UpdateTask taskId updates) s = snd (fst (updateTaskFlow w taskId updates s))"
| "deregistrations w (EnableTask taskId) s = snd (fst (enableTaskFlow w taskId s))"
| "deregistrations w (DisableTask taskId) s = snd (fst (disableTaskFlow w taskId s))"
| "deregistrations w (DeleteTask taskId) s =
     (case getTask s taskId of
        None \<Rightarrow> []
      | Some task \<Rightarrow> if isWebhook (t_trigger task) then [fst (deregisterWebhook w taskId s)] else [])"
| "deregistrations w (DeregisterWebhook taskId) s = [fst (deregisterWebhook w taskId s)]"
| "deregistrations w operation s = []"

section \<open>The specification's wording\<close>

text \<open>Section 3.4 of the specification: the source identifier as the specification
  derives it, with the \<^verbatim>\<open>startUrl\<close> fallback for \<^verbatim>\<open>http-crawler\<close>.\<close>

definition spec_sourceIdentifier :: "string \<Rightarrow> Config \<Rightarrow> string option" where
  "spec_sourceIdentifier pt sourceConfig =
     (if pt = ''git-crawler'' then map_of sourceConfig ''repoUrl''
      else if pt = ''googledrive-crawler'' then map_of sourceConfig ''folderId''
      else if pt = ''http-crawler''
        then (case map_of sourceConfig ''url'' of
                None \<Rightarrow> map_of sourceConfig ''startUrl''
              | Some u \<Rightarrow> Some u)
      else None)"

text \<open>Round trip, as the specification words it: two tasks are equal except for
  \<open>currentStatus\<close>, the id, and the secret and external webhook id of a webhook
  trigger.\<close>

definition spec_roundTripView :: "IngestionTaskDefinition \<Rightarrow> IngestionTaskDefinition" where
  "spec_roundTripView t =
     t\<lparr>t_id := [], t_currentStatus := None,
       t_trigger := (case t_trigger t of
                       Webhook tr \<Rightarrow> Webhook (tr\<lparr>externalWebhookId := None, secret := None\<rparr>)
                     | other \<Rightarrow> other)\<rparr>"

section \<open>Invariants and observations\<close>

text \<open>No registry entry is left with an empty \<open>registeredTasks\<close>.\<close>

definition noGhostEntries :: "State \<Rightarrow> bool" where
  "noGhostEntries s =
     list_all (\<lambda>k. case getWebhookRegistration s k of
                      None \<Rightarrow> True
                    | Some e \<Rightarrow> e_registeredTasks e \<noteq> [])
       (map fst (webhookRegistrations s))"

text \<open>The store's own invariant: keys are unique and every task is stored under its id
  (\<^verbatim>\<open>saveTask\<close> uses \<^verbatim>\<open>task.id\<close> as the key).\<close>

definition wellKeyed :: "State \<Rightarrow> bool" where
  "wellKeyed s = (distinct (map fst (tasks s)) \<and> list_all (\<lambda>(k, t). t_id t = k) (tasks s))"

text \<open>An operation that leaves every task's id alone: all of them, except an
  \<^verbatim>\<open>updateTask\<close> whose patch sets another id.\<close>

definition keepsId :: "Operation \<Rightarrow> State \<Rightarrow> bool" where
  "keepsId operation s =
     (case operation of
        UpdateTask taskId updates \<Rightarrow>
          (case getTask s taskId of
             None \<Rightarrow> True
           | Some existingTask \<Rightarrow> t_id (applyUpdates updates existingTask) = t_id existingTask)
      | _ \<Rightarrow> True)"

text \<open>The task ids for which \<^verbatim>\<open>runOrchestrator\<close> was entered, in order: it emits
  \<^verbatim>\<open>TASK_TRIGGERED\<close> first thing.\<close>

fun triggered :: "Event list \<Rightarrow> string list" where
  "triggered [] = []"
| "triggered (TASK_TRIGGERED k # es) = k # triggered es"
| "triggered (e # es) = triggered es"

definition newlyTriggered :: "State \<Rightarrow> State \<Rightarrow> string list" where
  "newlyTriggered s s' = drop (length (triggered (events s))) (triggered (events s'))"

text \<open>The executions of a source among the recorded calls, in order: the task id and the
  payload handed over.\<close>

fun sourceRuns :: "ExternalCall list \<Rightarrow> (string \<times> Payload option) list" where
  "sourceRuns [] = []"
| "sourceRuns (SourceExecute k p # cs) = (k, p) # sourceRuns cs"
| "sourceRuns (c # cs) = sourceRuns cs"

definition newSourceRuns :: "State \<Rightarrow> State \<Rightarrow> (string \<times> Payload option) list" where
  "newSourceRuns s s' = drop (length (sourceRuns (calls s))) (sourceRuns (calls s'))"

text \<open>What a run needs to reach the source's \<^verbatim>\<open>execute\<close>: the source plugin of the task is
  registered, the \<^verbatim>\<open>init\<close> of its destination (when that plugin is registered) does not
  throw, and the source's client initialises.\<close>

definition runnable :: "World \<Rightarrow> State \<Rightarrow> IngestionTaskDefinition \<Rightarrow> bool" where
  "runnable w s task =
     (pluginType (t_source task) \<in> set (registeredSources s)
      \<and> (case t_destination task of
           None \<Rightarrow> True
         | Some dest \<Rightarrow>
             if pluginType dest \<in> set (registeredDestinations s) then destinationInit w dest = None
             else True)
      \<and> sourceInitClient w (t_source task) = None)"

text \<open>A status whose \<^verbatim>\<open>data\<close> carries none of the three cursors.\<close>

definition noTokens :: "StatusData GSStatus \<Rightarrow> bool" where
  "noTokens st = (case data st of None \<Rightarrow> True
     | Some d \<Rightarrow> d_startPageToken d = None \<and> d_nextPageToken d = None
         \<and> d_otherCrawlerSpecificTokens d = None)"

text \<open>What the cron loop tests for the task stored under a key: an enabled cron task
  whose expression parses and whose previous scheduled time passes the due test.\<close>

definition dueNow :: "World \<Rightarrow> int \<Rightarrow> State \<Rightarrow> string \<Rightarrow> bool" where
  "dueNow w now s k =
     (case getTask s k of
        None \<Rightarrow> False
      | Some task \<Rightarrow>
          (case t_trigger task of
             Cron expression \<Rightarrow>
               t_enabled task \<and>
               (case cronPrev w expression now of
                  Inl err \<Rightarrow> False
                | Inr previousRunTime \<Rightarrow> isDue previousRunTime now (t_lastRun task))
           | _ \<Rightarrow> False))"


text \<open>The part of the task table that a run never writes: keys, ids, enabled flags and
  triggers.\<close>

definition staticPart ::
  "(string \<times> IngestionTaskDefinition) list \<Rightarrow> (string \<times> string \<times> bool \<times> IngestionTrigger) list" where
  "staticPart ts = map (\<lambda>(k, t). (k, t_id t, t_enabled t, t_trigger t)) ts"

section \<open>Example inputs\<close>

definition exampleTask ::
  "string \<Rightarrow> string \<Rightarrow> Config \<Rightarrow> IngestionTrigger \<Rightarrow> IngestionTaskDefinition" where
  "exampleTask i pt cfg trg =
     \<lparr>t_id = i, t_name = ''example'', t_enabled = True,
      t_source = \<lparr>pluginType = pt, config = cfg\<rparr>, t_destination = None,
      t_trigger = trg, t_currentStatus = None, t_lastRun = None, t_lastRunStatus = None,
      t_startPageToken = None, t_nextPageToken = None, t_otherCrawlerSpecificTokens = None,
      t_sourceIdentifier = None, t_endpointId = None, t_secret = None,
      t_externalWebhookId = None, t_registeredTasks = None, t_webhookFlag = None\<rparr>"

definition exampleWebhook :: IngestionTrigger where
  "exampleWebhook = Webhook \<lparr>endpointId = ''/gh'', callbackurl = ''https://cb.example/gh'',
     credentials = Some ''token'', externalWebhookId = None, secret = None\<rparr>"

definition exampleEntry :: "string \<Rightarrow> string list \<Rightarrow> WebhookRegistryEntry" where
  "exampleEntry sourceIdentifier ids =
     \<lparr>e_sourceIdentifier = sourceIdentifier, e_endpointId = ''/gh'', e_secret = ''abc'',
      e_externalWebhookId = ''42'', e_registeredTasks = ids, e_webhookFlag = True,
      e_startPageToken = Some ''42'', e_nextPageToken = None,
      e_otherCrawlerSpecificTokens = None\<rparr>"

definition exampleState ::
  "IngestionTaskDefinition list \<Rightarrow> WebhookRegistryEntry list \<Rightarrow> State" where
  "exampleState ts es =
     \<lparr>tasks = map (\<lambda>t. (t_id t, t)) ts,
      webhookRegistrations = map (\<lambda>e. (e_sourceIdentifier e, e)) es,
      registeredSources = [''git-crawler'', ''googledrive-crawler'', ''http-crawler''],
      registeredDestinations = [''file-system-destination''],
      events = [], calls = []\<rparr>"

definition exampleRecord :: IngestionData where
  "exampleRecord = \<lparr>r_id = ''item'', r_content = ''text'', r_url = None, r_statusCode = 200,
     r_fetchedAt = ''1970-01-01T00:00:30.000Z'', r_metadata = []\<rparr>"

text \<open>An environment: a cron parser for expressions that fire every full minute (it returns
  the latest full minute strictly before \<open>now\<close>), a provider that accepts registrations
  and refuses deregistrations, a source that returns one item and a cursor.\<close>

definition exampleWorld :: World where
  "exampleWorld =
     \<lparr>uuidv4 = ''generated-id'',
      randomSecret = ''s3cr3t'',
      wallNow = 30000,
      dateParse = (\<lambda>text. None),
      runFinishedAt = (\<lambda>taskId. 31000),
      fetchedAtIso = (\<lambda>taskId. ''1970-01-01T00:00:30.000Z''),
      cronPrev = (\<lambda>expression now. Inr (now - 1 - (now - 1) mod 60000)),
      hmacSha256Hex = (\<lambda>secretText body. ''deadbeef''),
      jsonParse = (\<lambda>body. Some \<lparr>gp_deleted = False, gp_repository_full_name = Some ''ex/r''\<rparr>),
      urlParse = (\<lambda>url. None),
      apiRegisterWebhook = (\<lambda>pt resource callback sec cred.
        \<lparr>reg_success = True, reg_externalId = Some ''42'', reg_startpageToken = None,
         reg_nextPageToken = None, reg_otherCrawlerSpecificTokens = None, reg_error = None\<rparr>),
      apiDeregisterWebhook = (\<lambda>pt resource extId cred.
        \<lparr>dereg_success = False, dereg_message = Some ''HTTP 502''\<rparr>),
      sourceInitClient = (\<lambda>src. None),
      sourceExecute = (\<lambda>src payload. Inr (newGSStatus True 200 ''ok''
        (Some \<lparr>sd_data = Some (RawArray [''item'']), sd_startPageToken = Some ''42'',
               sd_nextPageToken = None, sd_otherCrawlerSpecificTokens = None\<rparr>))),
      dataTransformer = (\<lambda>pt raw payload. Inr (map (\<lambda>r. exampleRecord) raw)),
      destinationInit = (\<lambda>dest. None),
      destinationProcessData = (\<lambda>dest records.
        Inr \<lparr>sr_success = True, sr_message = ''ok'', sr_data = None\<rparr>)\<rparr>"

definition acceptingWorld :: World where
  "acceptingWorld = exampleWorld\<lparr>apiDeregisterWebhook :=
     (\<lambda>pt resource extId cred. \<lparr>dereg_success = True, dereg_message = None\<rparr>)\<rparr>"

definition emptyingWorld :: World where
  "emptyingWorld = exampleWorld\<lparr>dataTransformer := (\<lambda>pt raw payload. Inr [])\<rparr>"

definition freshWebhookTask :: IngestionTaskDefinition where
  "freshWebhookTask =
     exampleTask ''g1'' ''git-crawler'' [(''repoUrl'', ''https://github.com/ex/r'')] exampleWebhook"

text \<open>One webhook task, the only one registered under its repository.\<close>

definition lastTaskState :: State where
  "lastTaskState = exampleState [freshWebhookTask] [exampleEntry ''https://github.com/ex/r'' [''g1'']]"

definition exampleOrchestrator :: Orchestrator where
  "exampleOrchestrator =
     \<lparr>sourceDataSource = Some \<lparr>pluginType = ''git-crawler'', config = [(''repoUrl'', ''https://github.com/ex/r'')]\<rparr>,
      o_dataTransformer = Some ''git-crawler'',
      o_destination = Some \<lparr>pluginType = ''file-system-destination'', config = []\<rparr>,
      o_taskId = ''g1''\<rparr>"

definition pushBody :: RawRequest where
  "pushBody = StringBody ''{\"repository\":{\"full_name\":\"ex/r\"},\"deleted\":false}''"

text \<open>Two signature headers for \<open>pushBody\<close> under the example environment, whose HMAC is
  \<^verbatim>\<open>deadbeef\<close>: the right hash followed by a second \<^verbatim>\<open>=\<close> and more text, and a wrong
  hash.\<close>

definition paddedSignature :: Headers where
  "paddedSignature =
     [(''x-github-event'', ''push''), (''x-hub-signature-256'', ''sha256=deadbeef=junk'')]"

definition wrongSignature :: Headers where
  "wrongSignature =
     [(''x-github-event'', ''push''), (''x-hub-signature-256'', ''sha256=0badc0de'')]"

definition cronTask :: IngestionTaskDefinition where
  "cronTask =
     exampleTask ''c1'' ''googledrive-crawler'' [(''folderId'', ''f1'')] (Cron ''*/1 * * * *'')"

text \<open>A cron task on a Drive folder for which another task holds a registry entry with
  a start page token.\<close>

definition cronState :: State where
  "cronState = exampleState [cronTask] [exampleEntry ''f1'' [''d1'']]"

text \<open>A second task on the repository of \<open>freshWebhookTask\<close>, and a webhook task
  whose trigger carries no credentials.\<close>

definition secondWebhookTask :: IngestionTaskDefinition where
  "secondWebhookTask =
     exampleTask ''g2'' ''git-crawler'' [(''repoUrl'', ''https://github.com/ex/r'')] exampleWebhook"

definition uncredentialedTask :: IngestionTaskDefinition where
  "uncredentialedTask =
     exampleTask ''g3'' ''git-crawler'' [(''repoUrl'', ''https://github.com/ex/r'')]
       (Webhook \<lparr>endpointId = ''/gh'', callbackurl = ''https://cb.example/gh'',
          credentials = None, externalWebhookId = None, secret = None\<rparr>)"

text \<open>Two cron tasks, and the store after \<^verbatim>\<open>updateTask('c1', {id: 'c2'})\<close>: the first
  task is then kept under the key \<^verbatim>\<open>c1\<close> with the id \<^verbatim>\<open>c2\<close>.\<close>

definition secondCronTask :: IngestionTaskDefinition where
  "secondCronTask =
     exampleTask ''c2'' ''googledrive-crawler'' [(''folderId'', ''f2'')] (Cron ''*/1 * * * *'')"

definition twoCronState :: State where
  "twoCronState = exampleState [cronTask, secondCronTask] []"

definition misfiledState :: State where
  "misfiledState = perform exampleWorld (UpdateTask ''c1'' [SetId ''c2'']) twoCronState"

text \<open>A cron task that last ran at 00:00:30.\<close>

definition ranCronState :: State where
  "ranCronState = exampleState [cronTask\<lparr>t_lastRun := Some 30000\<rparr>] []"

section \<open>Store lemmas\<close>

lemmas example_defs = exampleState_def exampleTask_def exampleWebhook_def exampleWorld_def
  exampleEntry_def exampleRecord_def acceptingWorld_def emptyingWorld_def freshWebhookTask_def
  lastTaskState_def exampleOrchestrator_def pushBody_def paddedSignature_def wrongSignature_def
  cronTask_def cronState_def secondWebhookTask_def uncredentialedTask_def secondCronTask_def
  twoCronState_def misfiledState_def ranCronState_def

lemmas store_defs = getTask_def saveTask_def updateTask_def db_deleteTask_def listAllTasks_def
  getWebhookRegistration_def saveWebhookRegistration_def updateWebhookRegistration_def
  deleteWebhookRegistration_def emit_def record_call_def

lemmas js_defs = truthy_def orElse_def orDefault_def newGSStatus_def failed500_def

lemmas schedule_defs = scheduleTask_def registerWebhook_def registerExternally_def
  getSourceIdentifier_def extractRepoNameFromUrl_def Let_def newWebhookEntry_def assignEntry_def
  setWebhookIds_def

lemmas update_defs = manager_updateTask_def updateTaskFlow_def handleWebhookChanges_def
  applyUpdates_def disableTask_def disableTaskFlow_def registerShared_def Let_def

lemmas run_defs = getSourceIdentifier_def extractRepoNameFromUrl_def
  Let_def triggerWebhookTask_def processWebhookRequest_def handleGitWebhook_def checkGitSignature_def
  webhookFailure_def runOrchestrator_def executeTask_def deliver_def executeFailed_def execData_def
  flattenSourceResult_def writeBackTokens_def lookupEntry_def withTokens_def emptyPayload_def
  cronPayload_def isDue_def triggerAllEnabledCronTasks_def currentTime_def

lemma getTask_saveTask: "getTask (saveTask task s) (t_id task) = Some task"
  by (simp add: getTask_def saveTask_def update_conv')

lemma getTask_updateTask:
  "getTask (updateTask k f s) k' = (if k' = k then map_option f (getTask s k) else getTask s k')"
  by (simp add: getTask_def updateTask_def update_conv' split: option.splits)

lemma getTask_emit [simp]: "getTask (emit e s) k = getTask s k"
  by (simp add: getTask_def emit_def)

lemma getTask_regs [simp]:
  "getTask (saveWebhookRegistration entry s) k = getTask s k"
  "getTask (updateWebhookRegistration sid g s) k = getTask s k"
  "getTask (deleteWebhookRegistration sid s) k = getTask s k"
  by (simp_all add: getTask_def saveWebhookRegistration_def updateWebhookRegistration_def
      deleteWebhookRegistration_def split: option.splits)



section \<open>Source identifiers (C8)\<close>

text \<open>
  C8, as amended. The derivation is total: \<^verbatim>\<open>git-crawler\<close> gives \<^verbatim>\<open>config.repoUrl\<close>,
  \<^verbatim>\<open>googledrive-crawler\<close> gives \<^verbatim>\<open>config.folderId\<close>, \<^verbatim>\<open>teams-chat-crawler\<close> gives
  \<^verbatim>\<open>config.meetingId\<close> or else \<^verbatim>\<open>config.chatId\<close>, \<^verbatim>\<open>http-crawler\<close> gives \<^verbatim>\<open>config.url\<close>
  and nothing else; every other plugin type gives nothing. When the derivation gives
  nothing, \<^verbatim>\<open>registerWebhook\<close> fails with status 400 and changes nothing, and so does
  \<^verbatim>\<open>deregisterWebhook\<close> on a stored webhook task.
\<close>

theorem getSourceIdentifier_total:
  "getSourceIdentifier ''git-crawler'' cfg = map_of cfg ''repoUrl''
   \<and> getSourceIdentifier ''googledrive-crawler'' cfg = map_of cfg ''folderId''
   \<and> getSourceIdentifier ''teams-chat-crawler'' cfg
        = orElse (map_of cfg ''meetingId'') (map_of cfg ''chatId'')
   \<and> getSourceIdentifier ''http-crawler'' cfg = map_of cfg ''url''
   \<and> (pt \<notin> {''git-crawler'', ''googledrive-crawler'', ''teams-chat-crawler'', ''http-crawler''}
        \<longrightarrow> getSourceIdentifier pt cfg = None)
   \<and> (getSourceIdentifier (pluginType (t_source task)) (config (t_source task)) = None
        \<longrightarrow> code (fst (registerWebhook w task s)) = 400
            \<and> \<not> success (fst (registerWebhook w task s))
            \<and> snd (registerWebhook w task s) = s)
   \<and> (getTask s taskId = Some task \<and> t_trigger task = Webhook tr
       \<and> getSourceIdentifier (pluginType (t_source task)) (config (t_source task)) = None
        \<longrightarrow> code (fst (deregisterWebhook w taskId s)) = 400
            \<and> \<not> success (fst (deregisterWebhook w taskId s))
            \<and> snd (deregisterWebhook w taskId s) = s)"
  by (simp add: getSourceIdentifier_def registerWebhook_def deregisterWebhook_def newGSStatus_def)

theorem getSourceIdentifier_total_witness:
  "''ftp-crawler'' \<notin> {''git-crawler'', ''googledrive-crawler'', ''teams-chat-crawler'', ''http-crawler''}
   \<and> getSourceIdentifier ''ftp-crawler'' [(''url'', ''ftp://example.com'')] = None
   \<and> getSourceIdentifier ''http-crawler'' [(''url'', ''https://example.com'')]
        = Some ''https://example.com''
   \<and> getTask (exampleState [exampleTask ''f1'' ''ftp-crawler'' [(''url'', ''ftp://example.com'')] exampleWebhook] [])
        ''f1''
        = Some (exampleTask ''f1'' ''ftp-crawler'' [(''url'', ''ftp://example.com'')] exampleWebhook)
   \<and> code (fst (registerWebhook exampleWorld
        (exampleTask ''f1'' ''ftp-crawler'' [(''url'', ''ftp://example.com'')] exampleWebhook)
        (exampleState [exampleTask ''f1'' ''ftp-crawler'' [(''url'', ''ftp://example.com'')] exampleWebhook] [])))
        = 400
   \<and> code (fst (deregisterWebhook exampleWorld ''f1''
        (exampleState [exampleTask ''f1'' ''ftp-crawler'' [(''url'', ''ftp://example.com'')] exampleWebhook] [])))
        = 400"
  using getSourceIdentifier_total
    [of "[(''url'', ''https://example.com'')]" "''ftp-crawler''"
      "exampleTask ''f1'' ''ftp-crawler'' [(''url'', ''ftp://example.com'')] exampleWebhook"
      exampleWorld
      "exampleState [exampleTask ''f1'' ''ftp-crawler'' [(''url'', ''ftp://example.com'')] exampleWebhook] []"
      "''f1''"
      "\<lparr>endpointId = ''/gh'', callbackurl = ''https://cb.example/gh'',
        credentials = Some ''token'', externalWebhookId = None, secret = None\<rparr>"]
  by (simp add: getTask_def exampleState_def exampleTask_def exampleWebhook_def getSourceIdentifier_def)

text \<open>C8 as stated fails: with only \<^verbatim>\<open>startUrl\<close> configured the code derives nothing for
  an \<^verbatim>\<open>http-crawler\<close>, where the specification's derivation gives the start URL.\<close>

theorem getSourceIdentifier_startUrl_counterexample:
  "getSourceIdentifier ''http-crawler'' [(''startUrl'', ''https://example.com'')] = None
   \<and> spec_sourceIdentifier ''http-crawler'' [(''startUrl'', ''https://example.com'')]
       = Some ''https://example.com''"
  by (simp add: getSourceIdentifier_def spec_sourceIdentifier_def)

section \<open>Saving a task under an existing id (C9)\<close>

text \<open>
  C9, as amended. The store's \<^verbatim>\<open>saveTask\<close> reports nothing and overwrites: afterwards
  the id holds the task just saved. The conflict is detected by the manager:
  \<^verbatim>\<open>scheduleTask\<close> of a task whose id is already stored returns status 409 and leaves the
  state as it was.
\<close>

theorem saveTask_overwrites_scheduleTask_conflicts:
  "getTask (saveTask task s) (t_id task) = Some task
   \<and> (getTask s (t_id task) \<noteq> None \<and> t_id task \<noteq> [] \<longrightarrow>
        scheduleTask w task s
          = (newGSStatus False 409 (''Task '' @ quoted (t_id task) @ '' already exists.'') None, s))"
  by (simp add: getTask_saveTask scheduleTask_def)

theorem saveTask_overwrites_scheduleTask_conflicts_witness:
  "getTask (exampleState [exampleTask ''a'' ''git-crawler'' [] Manual] []) ''a'' \<noteq> None
   \<and> t_id (exampleTask ''a'' ''http-crawler'' [] Manual) \<noteq> []
   \<and> scheduleTask exampleWorld (exampleTask ''a'' ''http-crawler'' [] Manual)
        (exampleState [exampleTask ''a'' ''git-crawler'' [] Manual] [])
      = (newGSStatus False 409 (''Task '' @ quoted ''a'' @ '' already exists.'') None,
         exampleState [exampleTask ''a'' ''git-crawler'' [] Manual] [])
   \<and> getTask (saveTask (exampleTask ''a'' ''http-crawler'' [] Manual)
         (exampleState [exampleTask ''a'' ''git-crawler'' [] Manual] [])) ''a''
       = Some (exampleTask ''a'' ''http-crawler'' [] Manual)"
  using saveTask_overwrites_scheduleTask_conflicts
    [of "exampleTask ''a'' ''http-crawler'' [] Manual"
      "exampleState [exampleTask ''a'' ''git-crawler'' [] Manual] []" exampleWorld]
  by (simp add: getTask_def exampleState_def exampleTask_def)

text \<open>C9 as stated fails: saving a second task under the stored id \<^verbatim>\<open>a\<close> replaces the
  stored task.\<close>

theorem saveTask_conflict_counterexample:
  "getTask (exampleState [exampleTask ''a'' ''git-crawler'' [] Manual] []) ''a''
     = Some (exampleTask ''a'' ''git-crawler'' [] Manual)
   \<and> getTask (saveTask (exampleTask ''a'' ''http-crawler'' [] Manual)
               (exampleState [exampleTask ''a'' ''git-crawler'' [] Manual] [])) ''a''
     = Some (exampleTask ''a'' ''http-crawler'' [] Manual)
   \<and> exampleTask ''a'' ''http-crawler'' [] Manual \<noteq> exampleTask ''a'' ''git-crawler'' [] Manual"
  by (simp add: getTask_def saveTask_def exampleState_def exampleTask_def)

section \<open>Deleting a task (C1)\<close>

text \<open>
  C1, the code at the failing inputs: for a stored task whose trigger is not a webhook
  trigger, \<^verbatim>\<open>deleteTask\<close> returns status 403 and leaves the state, the task included, as
  it was.
\<close>

theorem deleteTask_non_webhook_rejected:
  "getTask s taskId = Some task \<Longrightarrow> (\<forall>tr. t_trigger task \<noteq> Webhook tr) \<Longrightarrow>
   deleteTask w taskId s = (newGSStatus False 403 ''error in deleting task'' None, s)"
  by (cases "t_trigger task") (simp_all add: deleteTask_def)

theorem deleteTask_non_webhook_rejected_witness:
  "getTask (exampleState [exampleTask ''m1'' ''git-crawler'' [] Manual] []) ''m1''
     = Some (exampleTask ''m1'' ''git-crawler'' [] Manual)
   \<and> t_trigger (exampleTask ''m1'' ''git-crawler'' [] Manual) = Manual
   \<and> deleteTask exampleWorld ''m1'' (exampleState [exampleTask ''m1'' ''git-crawler'' [] Manual] [])
      = (newGSStatus False 403 ''error in deleting task'' None,
         exampleState [exampleTask ''m1'' ''git-crawler'' [] Manual] [])"
  using deleteTask_non_webhook_rejected
    [of "exampleState [exampleTask ''m1'' ''git-crawler'' [] Manual] []" "''m1''"
      "exampleTask ''m1'' ''git-crawler'' [] Manual" exampleWorld]
  by (simp add: getTask_def exampleState_def exampleTask_def)

section \<open>The deregister flow\<close>






lemma deregister_refused:
  "deregisterWebhook exampleWorld ''g1'' lastTaskState
   = (failed500 ''Failed to deregister webhook: '' ''HTTP 502'',
      lastTaskState\<lparr>webhookRegistrations :=
        [(''https://github.com/ex/r'', exampleEntry ''https://github.com/ex/r'' [])]\<rparr>)"
  by (simp add: deregisterWebhook_def deregisterExternally_def example_defs store_defs
      getSourceIdentifier_def extractRepoNameFromUrl_def Let_def)


section \<open>Deleting a webhook task whose deregistration fails\<close>

lemma deregisterExternally_tasks:
  "getTask (snd (deregisterExternally w pt sid tr entry resource who s)) = getTask s"
  by (auto simp: deregisterExternally_def Let_def fun_eq_iff split: option.splits)

lemma deregisterWebhook_tasks: "getTask (snd (deregisterWebhook w taskId s)) = getTask s"
  by (auto simp: deregisterWebhook_def Let_def fun_eq_iff deregisterExternally_tasks
      split: option.splits IngestionTrigger.splits)

text \<open>
  The half of C1 that the code keeps: when the deregister flow of a stored webhook task
  fails, \<^verbatim>\<open>deleteTask\<close> returns the error status 403 and the task is still stored.
\<close>

theorem deleteTask_aborts_when_deregister_fails:
  assumes "getTask s taskId = Some task" and "t_trigger task = Webhook tr"
    and "\<not> success (fst (deregisterWebhook w taskId s))"
  shows "fst (deleteTask w taskId s) = newGSStatus False 403 ''error in deleting task'' None
    \<and> getTask (snd (deleteTask w taskId s)) taskId = Some task"
  using assms deregisterWebhook_tasks [of w taskId s]
  by (auto simp: deleteTask_def split: prod.splits)

theorem deleteTask_aborts_when_deregister_fails_witness:
  "getTask lastTaskState ''g1'' = Some freshWebhookTask
   \<and> t_trigger freshWebhookTask = exampleWebhook
   \<and> \<not> success (fst (deregisterWebhook exampleWorld ''g1'' lastTaskState))
   \<and> fst (deleteTask exampleWorld ''g1'' lastTaskState)
       = newGSStatus False 403 ''error in deleting task'' None
   \<and> getTask (snd (deleteTask exampleWorld ''g1'' lastTaskState)) ''g1'' = Some freshWebhookTask"
  using deleteTask_aborts_when_deregister_fails [of lastTaskState "''g1''" freshWebhookTask
      "\<lparr>endpointId = ''/gh'', callbackurl = ''https://cb.example/gh'',
        credentials = Some ''token'', externalWebhookId = None, secret = None\<rparr>" exampleWorld]
  by (simp add: deregister_refused) (simp add: example_defs store_defs js_defs)

section \<open>An empty transformer result (C10)\<close>

text \<open>
  C10. When the source is initialised and executes successfully and the transformer
  returns the empty list, \<^verbatim>\<open>executeTask\<close> returns a success status with code 200 and
  \<open>itemsProcessed = 0\<close>, its last event is \<^verbatim>\<open>TASK_COMPLETED\<close> with that status, and
  the only call that leaves the orchestrator is the source's: the destination, configured
  or not, receives nothing.
\<close>

theorem executeTask_no_records:
  assumes "sourceDataSource orch = Some src" and "o_dataTransformer orch = Some tr"
    and "sourceInitClient w src = None"
    and "sourceExecute w src initialPayload = Inr st" and "success st"
    and "dataTransformer w tr (flattenSourceResult (data st))
           ((case initialPayload of None \<Rightarrow> emptyPayload | Some p \<Rightarrow> p)
              \<lparr>p_fetchedAt := Some (fetchedAtIso w (o_taskId orch))\<rparr>) = Inr []"
  shows "success (fst (executeTask w orch initialPayload s))
    \<and> code (fst (executeTask w orch initialPayload s)) = 200
    \<and> map_option itemsProcessed (data (fst (executeTask w orch initialPayload s))) = Some (Some 0)
    \<and> events (snd (executeTask w orch initialPayload s))
        = events s @ [DATA_FETCHED (flattenSourceResult (data st)) (o_taskId orch),
                      DATA_TRANSFORMED [] (o_taskId orch),
                      TASK_COMPLETED (o_taskId orch) (fst (executeTask w orch initialPayload s))]
    \<and> calls (snd (executeTask w orch initialPayload s))
        = calls s @ [SourceExecute (o_taskId orch) initialPayload]"
  using assms
  by (simp add: executeTask_def Let_def newGSStatus_def execData_def emit_def record_call_def)

theorem executeTask_no_records_witness:
  "o_destination exampleOrchestrator = Some \<lparr>pluginType = ''file-system-destination'', config = []\<rparr>
   \<and> sourceInitClient emptyingWorld
        \<lparr>pluginType = ''git-crawler'', config = [(''repoUrl'', ''https://github.com/ex/r'')]\<rparr> = None
   \<and> success (fst (executeTask emptyingWorld exampleOrchestrator None lastTaskState))
   \<and> code (fst (executeTask emptyingWorld exampleOrchestrator None lastTaskState)) = 200
   \<and> map_option itemsProcessed
        (data (fst (executeTask emptyingWorld exampleOrchestrator None lastTaskState))) = Some (Some 0)
   \<and> calls (snd (executeTask emptyingWorld exampleOrchestrator None lastTaskState))
        = [SourceExecute ''g1'' None]"
  using executeTask_no_records [of exampleOrchestrator
      "\<lparr>pluginType = ''git-crawler'', config = [(''repoUrl'', ''https://github.com/ex/r'')]\<rparr>"
      "''git-crawler''" emptyingWorld None
      "newGSStatus True 200 ''ok''
        (Some \<lparr>sd_data = Some (RawArray [''item'']), sd_startPageToken = Some ''42'',
               sd_nextPageToken = None, sd_otherCrawlerSpecificTokens = None\<rparr>)"
      lastTaskState]
  by (simp add: example_defs js_defs)

section \<open>What a run changes\<close>

text \<open>
  The orchestrator writes events and calls only, and the statuses it builds carry no
  cursor. Hence \<^verbatim>\<open>runOrchestrator\<close> leaves the registry as it was, writes only the task
  stored under the id of the task it runs, and keeps ids, enabled flags and triggers.
\<close>

lemma triggered_append [simp]: "triggered (xs @ ys) = triggered xs @ triggered ys"
  by (induction xs rule: triggered.induct) simp_all

lemma emit_fields [simp]:
  "tasks (emit e s) = tasks s" "webhookRegistrations (emit e s) = webhookRegistrations s"
  "registeredSources (emit e s) = registeredSources s"
  "registeredDestinations (emit e s) = registeredDestinations s"
  "events (emit e s) = events s @ [e]" "calls (emit e s) = calls s"
  by (simp_all add: emit_def)

lemma record_call_fields [simp]:
  "tasks (record_call c s) = tasks s" "webhookRegistrations (record_call c s) = webhookRegistrations s"
  "registeredSources (record_call c s) = registeredSources s"
  "registeredDestinations (record_call c s) = registeredDestinations s"
  "events (record_call c s) = events s" "calls (record_call c s) = calls s @ [c]"
  by (simp_all add: record_call_def)

lemma updateTask_fields [simp]:
  "webhookRegistrations (updateTask k f s) = webhookRegistrations s"
  "registeredSources (updateTask k f s) = registeredSources s"
  "registeredDestinations (updateTask k f s) = registeredDestinations s"
  "events (updateTask k f s) = events s" "calls (updateTask k f s) = calls s"
  by (simp_all add: updateTask_def split: option.splits)

lemma executeFailed_frame:
  "tasks (snd (executeFailed k e s)) = tasks s
   \<and> webhookRegistrations (snd (executeFailed k e s)) = webhookRegistrations s
   \<and> registeredSources (snd (executeFailed k e s)) = registeredSources s
   \<and> registeredDestinations (snd (executeFailed k e s)) = registeredDestinations s
   \<and> triggered (events (snd (executeFailed k e s))) = triggered (events s)"
  by (simp add: executeFailed_def Let_def)

lemma deliver_frame:
  "tasks (snd (deliver w orch recs s)) = tasks s
   \<and> webhookRegistrations (snd (deliver w orch recs s)) = webhookRegistrations s
   \<and> registeredSources (snd (deliver w orch recs s)) = registeredSources s
   \<and> registeredDestinations (snd (deliver w orch recs s)) = registeredDestinations s
   \<and> triggered (events (snd (deliver w orch recs s))) = triggered (events s)"
  by (simp add: deliver_def Let_def split: option.splits sum.splits)

lemma executeTask_frame:
  "tasks (snd (executeTask w orch p s)) = tasks s
   \<and> webhookRegistrations (snd (executeTask w orch p s)) = webhookRegistrations s
   \<and> registeredSources (snd (executeTask w orch p s)) = registeredSources s
   \<and> registeredDestinations (snd (executeTask w orch p s)) = registeredDestinations s
   \<and> triggered (events (snd (executeTask w orch p s))) = triggered (events s)"
  by (simp add: executeTask_def Let_def executeFailed_frame deliver_frame
      split: option.splits sum.splits prod.splits)

lemma executeTask_noTokens: "noTokens (fst (executeTask w orch p s))"
  by (simp add: executeTask_def Let_def executeFailed_def deliver_def noTokens_def newGSStatus_def
      execData_def split: option.splits sum.splits prod.splits)

lemma writeBackTokens_noTokens: "noTokens st \<Longrightarrow> writeBackTokens t st s = s"
  by (simp add: writeBackTokens_def noTokens_def split: option.splits)


lemma executeTask_frameD:
  "executeTask w orch p s = (st, s') \<Longrightarrow>
     tasks s' = tasks s \<and> getTask s' = getTask s \<and> webhookRegistrations s' = webhookRegistrations s
     \<and> registeredSources s' = registeredSources s
     \<and> triggered (events s') = triggered (events s) \<and> noTokens st"
  using executeTask_frame [of w orch p s] executeTask_noTokens [of w orch p s]
  by (simp add: getTask_def fun_eq_iff)

lemma staticPart_update:
  "map_of al k = Some t \<Longrightarrow> t_id t' = t_id t \<Longrightarrow> t_enabled t' = t_enabled t \<Longrightarrow>
   t_trigger t' = t_trigger t \<Longrightarrow> staticPart (AList.update k t' al) = staticPart al"
  by (induction al) (auto simp: staticPart_def)

lemma staticPart_updateTask:
  "(\<And>x. t_id (f x) = t_id x \<and> t_enabled (f x) = t_enabled x \<and> t_trigger (f x) = t_trigger x) \<Longrightarrow>
   staticPart (tasks (updateTask k f s)) = staticPart (tasks s)"
  by (simp add: updateTask_def staticPart_update split: option.splits)

lemma tasks_updateTask_cong:
  "tasks s1 = tasks s2 \<Longrightarrow> tasks (updateTask k f s1) = tasks (updateTask k f s2)"
  by (simp add: updateTask_def split: option.splits)

lemma getTask_cong: "tasks s1 = tasks s2 \<Longrightarrow> getTask s1 k = getTask s2 k"
  by (simp add: getTask_def)

text \<open>A run never writes the webhook registry, whatever the source returns and whatever
  the trigger of the task is.\<close>

theorem runOrchestrator_registry:
  "webhookRegistrations (snd (runOrchestrator w t p s)) = webhookRegistrations s"
  by (auto simp: runOrchestrator_def Let_def writeBackTokens_noTokens
      split: option.splits prod.splits dest!: executeTask_frameD)


lemma runOrchestrator_triggered:
  "triggered (events (snd (runOrchestrator w t p s))) = triggered (events s) @ [t_id t]"
  by (auto simp: runOrchestrator_def Let_def writeBackTokens_noTokens
      split: option.splits prod.splits dest!: executeTask_frameD)

lemma runOrchestrator_static:
  "staticPart (tasks (snd (runOrchestrator w t p s))) = staticPart (tasks s)"
  by (auto simp: runOrchestrator_def Let_def writeBackTokens_noTokens staticPart_updateTask
      split: option.splits prod.splits dest!: executeTask_frameD
      intro: tasks_updateTask_cong [THEN arg_cong [where f = staticPart], THEN trans])


lemma runOrchestrator_other:
  "k \<noteq> t_id t \<Longrightarrow> getTask (snd (runOrchestrator w t p s)) k = getTask s k"
  by (auto simp: runOrchestrator_def Let_def writeBackTokens_noTokens getTask_updateTask
      split: option.splits prod.splits dest!: executeTask_frameD)

lemma runOrchestrator_own:
  "getTask (snd (runOrchestrator w t p s)) (t_id t) = Some t' \<Longrightarrow>
   t_currentStatus t' = Some COMPLETED \<Longrightarrow> t_lastRun t' = Some (runFinishedAt w (t_id t))"
  by (auto simp: runOrchestrator_def Let_def writeBackTokens_noTokens getTask_updateTask
      split: option.splits prod.splits if_splits dest!: executeTask_frameD)


lemma wellKeyed_staticPart:
  "wellKeyed s \<longleftrightarrow>
     distinct (map fst (staticPart (tasks s)))
     \<and> list_all (\<lambda>(k, i, e, tr). i = k) (staticPart (tasks s))"
  by (simp add: wellKeyed_def staticPart_def list_all_iff comp_def case_prod_unfold)

lemma wellKeyed_static:
  "staticPart (tasks s') = staticPart (tasks s) \<Longrightarrow> wellKeyed s \<Longrightarrow> wellKeyed s'"
  by (simp add: wellKeyed_staticPart)

lemma wellKeyed_id: "wellKeyed s \<Longrightarrow> getTask s k = Some t \<Longrightarrow> t_id t = k"
  by (auto simp: wellKeyed_def getTask_def list_all_iff dest!: map_of_SomeD)


lemma cronLoop_Cons_skip:
  "\<not> dueNow w now s k \<Longrightarrow> \<exists>res' n'. cronLoop w now (k # ks) res n s = cronLoop w now ks res' n' s"
  by (auto simp: dueNow_def getTask_def split: option.splits IngestionTrigger.splits sum.splits)

lemma cronLoop_Cons_due:
  "dueNow w now s k \<Longrightarrow> getTask s k = Some task \<Longrightarrow>
   \<exists>res' n'. cronLoop w now (k # ks) res n s
     = cronLoop w now ks res' n' (snd (runOrchestrator w task (Some (cronPayload s task)) s))"
  by (auto simp: dueNow_def getTask_def split: option.splits IngestionTrigger.splits sum.splits prod.splits)

lemma dueNow_cong: "getTask s' k = getTask s k \<Longrightarrow> dueNow w now s' k = dueNow w now s k"
  by (simp add: dueNow_def)

lemma cronLoop_effect:
  assumes "wellKeyed s" and "distinct ks"
  shows "staticPart (tasks (snd (cronLoop w now ks res n s))) = staticPart (tasks s)
    \<and> triggered (events (snd (cronLoop w now ks res n s)))
        = triggered (events s) @ filter (dueNow w now s) ks
    \<and> (\<forall>k. k \<notin> set ks \<longrightarrow> getTask (snd (cronLoop w now ks res n s)) k = getTask s k)
    \<and> (\<forall>k t'. k \<in> set ks \<and> dueNow w now s k
          \<and> getTask (snd (cronLoop w now ks res n s)) k = Some t'
          \<and> t_currentStatus t' = Some COMPLETED
          \<longrightarrow> t_lastRun t' = Some (runFinishedAt w k))"
  using assms
proof (induction ks arbitrary: res n s)
  case Nil
  then show ?case by simp
next
  case (Cons k ks)
  show ?case
  proof (cases "dueNow w now s k")
    case False
    then obtain res' n' where
      step: "cronLoop w now (k # ks) res n s = cronLoop w now ks res' n' s"
      using cronLoop_Cons_skip by blast
    from Cons.prems have "distinct ks" by simp
    from Cons.IH [OF Cons.prems(1) this, of res' n'] False show ?thesis
      unfolding step by auto
  next
    case True
    then obtain task where task: "getTask s k = Some task"
      by (auto simp: dueNow_def split: option.splits)
    define s1 where "s1 = snd (runOrchestrator w task (Some (cronPayload s task)) s)"
    from True task obtain res' n' where
      step: "cronLoop w now (k # ks) res n s = cronLoop w now ks res' n' s1"
      using cronLoop_Cons_due unfolding s1_def by blast
    have idk: "t_id task = k" using Cons.prems(1) task by (rule wellKeyed_id)
    have st1: "staticPart (tasks s1) = staticPart (tasks s)"
      unfolding s1_def by (rule runOrchestrator_static)
    then have wk1: "wellKeyed s1" using Cons.prems(1) by (rule wellKeyed_static)
    have other: "getTask s1 k' = getTask s k'" if "k' \<noteq> k" for k'
      unfolding s1_def using that idk by (simp add: runOrchestrator_other)
    have ev1: "triggered (events s1) = triggered (events s) @ [k]"
      unfolding s1_def using idk by (simp add: runOrchestrator_triggered)
    have own: "t_lastRun t' = Some (runFinishedAt w k)"
      if "getTask s1 k = Some t'" "t_currentStatus t' = Some COMPLETED" for t'
      using that runOrchestrator_own [of w task "Some (cronPayload s task)" s t'] idk
      unfolding s1_def by simp
    from Cons.prems have dks: "distinct ks" and knot: "k \<notin> set ks" by simp_all
    have due1: "dueNow w now s1 k' = dueNow w now s k'" if "k' \<in> set ks" for k'
    proof -
      from that knot have "k' \<noteq> k" by auto
      then have "getTask s1 k' = getTask s k'" by (rule other)
      then show ?thesis by (rule dueNow_cong)
    qed
    then have filt: "filter (dueNow w now s1) ks = filter (dueNow w now s) ks"
      by (auto intro: filter_cong)
    note IH = Cons.IH [OF wk1 dks, of res' n']
    show ?thesis
      unfolding step
    proof (intro conjI allI impI)
      show "staticPart (tasks (snd (cronLoop w now ks res' n' s1))) = staticPart (tasks s)"
        using IH st1 by simp
      show "triggered (events (snd (cronLoop w now ks res' n' s1)))
            = triggered (events s) @ filter (dueNow w now s) (k # ks)"
        using IH ev1 filt True by simp
    next
      fix k' assume "k' \<notin> set (k # ks)"
      then show "getTask (snd (cronLoop w now ks res' n' s1)) k' = getTask s k'"
        using IH other [of k'] by simp
    next
      fix k' t'
      assume a: "k' \<in> set (k # ks) \<and> dueNow w now s k'
          \<and> getTask (snd (cronLoop w now ks res' n' s1)) k' = Some t'
          \<and> t_currentStatus t' = Some COMPLETED"
      show "t_lastRun t' = Some (runFinishedAt w k')"
      proof (cases "k' = k")
        case True
        with a knot IH have "getTask s1 k = Some t'" by simp
        with a True show ?thesis using own by simp
      next
        case False
        with a have "k' \<in> set ks" by simp
        with a due1 [of k'] IH show ?thesis by blast
      qed
    qed
  qed
qed

text \<open>
  The source executions of a run: \<^verbatim>\<open>runOrchestrator\<close> executes the source of the task once,
  with the payload it was given, when the run can reach it, and not at all otherwise.
  The cron loop therefore executes, in the order of the table, the sources of the tasks
  that were due when the loop started.
\<close>

lemma sourceRuns_append [simp]: "sourceRuns (xs @ ys) = sourceRuns xs @ sourceRuns ys"
  by (induction xs rule: sourceRuns.induct) simp_all












lemma triggerAll_state:
  "snd (triggerAllEnabledCronTasks w eventTime s)
     = (case currentTime w eventTime of
          None \<Rightarrow> s
        | Some now \<Rightarrow> snd (cronLoop w now (map fst (tasks s)) [] 0 s))"
  by (simp add: triggerAllEnabledCronTasks_def Let_def split: prod.splits option.splits)



lemma cron_static:
  assumes "wellKeyed s"
  shows "staticPart (tasks (snd (triggerAllEnabledCronTasks w eventTime s))) = staticPart (tasks s)"
proof -
  from assms have "distinct (map fst (tasks s))" by (simp add: wellKeyed_def)
  from cronLoop_effect [OF assms this] show ?thesis
    by (simp add: triggerAll_state split: option.splits)
qed

section \<open>Writes that leave the other table alone\<close>

lemma noGhost_cong:
  "webhookRegistrations s' = webhookRegistrations s \<Longrightarrow> noGhostEntries s' = noGhostEntries s"
  by (simp add: noGhostEntries_def getWebhookRegistration_def)

lemma saveTask_fields [simp]:
  "webhookRegistrations (saveTask t s) = webhookRegistrations s"
  "registeredSources (saveTask t s) = registeredSources s"
  "registeredDestinations (saveTask t s) = registeredDestinations s"
  "events (saveTask t s) = events s" "calls (saveTask t s) = calls s"
  by (simp_all add: saveTask_def)

lemma db_deleteTask_fields [simp]:
  "webhookRegistrations (db_deleteTask k s) = webhookRegistrations s"
  by (simp_all add: db_deleteTask_def)

lemma registry_tasks [simp]:
  "tasks (saveWebhookRegistration entry s) = tasks s"
  "tasks (updateWebhookRegistration sid g s) = tasks s"
  "tasks (deleteWebhookRegistration sid s) = tasks s"
  by (simp_all add: saveWebhookRegistration_def updateWebhookRegistration_def
      deleteWebhookRegistration_def split: option.splits)

lemma getReg_save:
  "getWebhookRegistration (saveWebhookRegistration entry s) k =
     (if k = e_sourceIdentifier entry then Some entry else getWebhookRegistration s k)"
  by (simp add: getWebhookRegistration_def saveWebhookRegistration_def update_conv')

lemma getReg_frame [simp]:
  "getWebhookRegistration (updateTask k f s) = getWebhookRegistration s"
  "getWebhookRegistration (emit e s) = getWebhookRegistration s"
  "getWebhookRegistration (saveTask t s) = getWebhookRegistration s"
  "getWebhookRegistration (db_deleteTask k s) = getWebhookRegistration s"
  by (simp_all add: getWebhookRegistration_def fun_eq_iff)

lemma noGhost_frame [simp]:
  "noGhostEntries (updateTask k f s) = noGhostEntries s"
  "noGhostEntries (emit e s) = noGhostEntries s"
  "noGhostEntries (saveTask t s) = noGhostEntries s"
  "noGhostEntries (db_deleteTask k s) = noGhostEntries s"
  by (rule noGhost_cong, simp)+

lemma flow_states:
  "snd (manager_updateTask w taskId updates s) = snd (updateTaskFlow w taskId updates s)"
  "snd (enableTask w taskId s) = snd (enableTaskFlow w taskId s)"
  "snd (disableTask w taskId s) = snd (disableTaskFlow w taskId s)"
  by (simp_all add: manager_updateTask_def enableTask_def disableTask_def split: prod.splits)

section \<open>Scheduling round trip (C4)\<close>

lemma assignEntry_kept [simp]:
  "t_id (assignEntry trg entry t) = t_id t"
  "t_lastRun (assignEntry trg entry t) = t_lastRun t"
  "t_currentStatus (assignEntry trg entry t) = t_currentStatus t"
  "t_lastRunStatus (assignEntry trg entry t) = t_lastRunStatus t"
  by (simp_all add: assignEntry_def)

lemma registerExternally_exact:
  assumes "getTask s (t_id t0) = Some t0" and "registerExternally w t0 sid resource who s = (st, s')"
  shows "(\<not> success st \<longrightarrow> s' = s)
     \<and> (success st \<longrightarrow>
          (\<exists>created. getWebhookRegistration s' sid = Some created
             \<and> e_registeredTasks created = [t_id t0]
             \<and> getTask s' (t_id t0)
                 = Some (assignEntry (setWebhookIds (e_externalWebhookId created) (e_secret created)
                           (t_trigger t0)) created t0)))"
  using assms
  by (auto simp: registerExternally_def Let_def getTask_updateTask getReg_save newWebhookEntry_def
      failed500_def newGSStatus_def
      split: IngestionTrigger.splits option.splits if_splits)

lemma registerWebhook_exact:
  assumes "getTask s (t_id t0) = Some t0" and "registerWebhook w t0 s = (st, s')"
  shows "(\<not> success st \<longrightarrow> s' = s)
     \<and> (success st \<longrightarrow>
          (\<exists>sid. getSourceIdentifier (pluginType (t_source t0)) (config (t_source t0)) = Some sid
             \<and> sid \<noteq> []
             \<and> (case getWebhookRegistration s sid of
                  Some existing \<Rightarrow>
                    getTask s' (t_id t0)
                      = Some (t0\<lparr>t_trigger := setWebhookIds (e_externalWebhookId existing)
                                   (e_secret existing) (t_trigger t0)\<rparr>)
                | None \<Rightarrow>
                    (\<exists>created. getWebhookRegistration s' sid = Some created
                       \<and> e_registeredTasks created = [t_id t0]
                       \<and> getTask s' (t_id t0)
                           = Some (assignEntry (setWebhookIds (e_externalWebhookId created)
                                     (e_secret created) (t_trigger t0)) created t0)))))"
proof (cases "getSourceIdentifier (pluginType (t_source t0)) (config (t_source t0))")
  case None
  with assms show ?thesis by (auto simp: registerWebhook_def Let_def newGSStatus_def)
next
  case (Some sid)
  show ?thesis
  proof (cases "sid = []")
    case True
    with Some assms show ?thesis by (auto simp: registerWebhook_def Let_def newGSStatus_def)
  next
    case False
    show ?thesis
    proof (cases "getWebhookRegistration s sid")
      case (Some existing)
      with \<open>getSourceIdentifier (pluginType (t_source t0)) (config (t_source t0)) = Some sid\<close> False assms
      show ?thesis
        by (auto simp: registerWebhook_def Let_def newGSStatus_def getTask_updateTask)
    next
      case None
      with \<open>getSourceIdentifier (pluginType (t_source t0)) (config (t_source t0)) = Some sid\<close> False assms
        registerExternally_exact [OF assms(1), of w sid _ _ st s']
      show ?thesis
        by (auto simp: registerWebhook_def Let_def newGSStatus_def split: if_splits)
    qed
  qed
qed

text \<open>
  C4, as amended. Let \<open>T\<close> be a task definition whose (given or generated) id is not in
  the store, and \<open>T0\<close> be \<open>T\<close> with that id, \<open>currentStatus\<close> \<^verbatim>\<open>SCHEDULED\<close>, and
  \<open>lastRun\<close> and \<open>lastRunStatus\<close> unset. After \<^verbatim>\<open>scheduleTask\<close> the task stored under
  the id is
  \<^item> \<open>T0\<close>, when the task is disabled or its trigger is not a webhook;
  \<^item> \<open>T0\<close> with \<open>currentStatus\<close> \<^verbatim>\<open>FAILED\<close> and \<open>lastRunStatus\<close> the returned status, when
    the task is an enabled webhook task whose registration fails;
  \<^item> \<open>T0\<close> with the external webhook id and the secret of the registry entry written
    into the trigger, when the task is an enabled webhook task and the registry already
    holds an entry for its source: nothing else is written, the cursors of the entry are
    not copied;
  \<^item> \<open>T0\<close> with the trigger filled in the same way and with the nine properties of the
    new registry entry assigned (\<open>sourceIdentifier\<close>, \<open>endpointId\<close>, \<open>secret\<close>,
    \<open>externalWebhookId\<close>, \<open>registeredTasks\<close>, \<open>webhookFlag\<close> and the three cursors), when
    the task is an enabled webhook task whose registration creates the entry of its source;
    that entry is the one the registry then holds, and its \<open>registeredTasks\<close> is the id alone.
\<close>

theorem scheduleTask_round_trip:
  assumes "taskId = (if t_id T \<noteq> [] then t_id T else uuidv4 w)" and "getTask s taskId = None"
    and "T0 = T\<lparr>t_id := taskId, t_currentStatus := Some SCHEDULED,
                  t_lastRun := None, t_lastRunStatus := None\<rparr>"
    and "scheduleTask w T s = (st, s')"
  shows "(\<not> (t_enabled T \<and> isWebhook (t_trigger T)) \<longrightarrow> getTask s' taskId = Some T0)
    \<and> (t_enabled T \<and> isWebhook (t_trigger T) \<and> \<not> success st \<longrightarrow>
         getTask s' taskId = Some (T0\<lparr>t_currentStatus := Some FAILED, t_lastRunStatus := Some st\<rparr>))
    \<and> (t_enabled T \<and> isWebhook (t_trigger T) \<and> success st \<longrightarrow>
         (\<exists>sid. getSourceIdentifier (pluginType (t_source T)) (config (t_source T)) = Some sid
            \<and> sid \<noteq> []
            \<and> (case getWebhookRegistration s sid of
                 Some existing \<Rightarrow>
                   getTask s' taskId
                     = Some (T0\<lparr>t_trigger := setWebhookIds (e_externalWebhookId existing)
                                  (e_secret existing) (t_trigger T)\<rparr>)
               | None \<Rightarrow>
                   (\<exists>created. getWebhookRegistration s' sid = Some created
                      \<and> e_registeredTasks created = [taskId]
                      \<and> getTask s' taskId
                          = Some (assignEntry (setWebhookIds (e_externalWebhookId created)
                                    (e_secret created) (t_trigger T)) created T0)))))"
proof -
  define s1 where "s1 = emit (TASK_SCHEDULED T0) (saveTask T0 s)"
  have id0: "t_id T0 = taskId" by (simp add: assms(3))
  have g1: "getTask s1 (t_id T0) = Some T0"
    unfolding s1_def using getTask_saveTask [of T0 s] by simp
  have same: "t_trigger T0 = t_trigger T" "t_enabled T0 = t_enabled T" "t_source T0 = t_source T"
    by (simp_all add: assms(3))
  have reg1: "getWebhookRegistration s1 = getWebhookRegistration s" by (simp add: s1_def)
  show ?thesis
  proof (cases "t_enabled T \<and> isWebhook (t_trigger T)")
    case False
    then have "scheduleTask w T s = (newGSStatus True 200 ''Task scheduled successfully.'' None, s1)"
      using assms(1,2)
      by (cases "t_id T = []"; cases "t_trigger T")
         (auto simp: scheduleTask_def Let_def assms(3) s1_def)
    with assms(4) g1 id0 False show ?thesis by auto
  next
    case True
    then obtain tr where tr: "t_trigger T = Webhook tr" and en: "t_enabled T"
      by (cases "t_trigger T") auto
    obtain rs s2 where r: "registerWebhook w T0 s1 = (rs, s2)" by (cases "registerWebhook w T0 s1")
    have "scheduleTask w T s =
        (case registerWebhook w T0 s1 of (rs, s2) \<Rightarrow>
           if \<not> success rs then
             (rs, updateTask taskId
                (\<lambda>t. t\<lparr>t_currentStatus := Some FAILED, t_lastRunStatus := Some rs\<rparr>) s2)
           else (newGSStatus True 200 ''Task scheduled successfully.'' None, s2))"
      using assms(1,2) tr en
      by (cases "t_id T = []")
         (simp_all add: scheduleTask_def Let_def assms(3) s1_def split: prod.splits)
    with r assms(4) have res: "(st, s') =
        (if \<not> success rs then
             (rs, updateTask taskId
                (\<lambda>t. t\<lparr>t_currentStatus := Some FAILED, t_lastRunStatus := Some rs\<rparr>) s2)
           else (newGSStatus True 200 ''Task scheduled successfully.'' None, s2))"
      by simp
    note ex = registerWebhook_exact [OF g1 r]
    show ?thesis
    proof (cases "success rs")
      case False
      with ex have "s2 = s1" by simp
      with res False g1 id0 True show ?thesis
        by (auto simp: getTask_updateTask)
    next
      case ok: True
      with res have "st = newGSStatus True 200 ''Task scheduled successfully.'' None" "s' = s2"
        by simp_all
      with ex ok True same id0 reg1 show ?thesis
        by (auto simp: newGSStatus_def split: option.splits)
    qed
  qed
qed

lemma scheduled_fresh:
  "getTask (snd (scheduleTask exampleWorld freshWebhookTask (exampleState [] []))) ''g1''
  = Some (freshWebhookTask\<lparr>t_currentStatus := Some SCHEDULED,
      t_trigger := Webhook \<lparr>endpointId = ''/gh'', callbackurl = ''https://cb.example/gh'',
         credentials = Some ''token'', externalWebhookId = Some ''42'', secret = Some ''s3cr3t''\<rparr>,
      t_sourceIdentifier := Some ''https://github.com/ex/r'', t_endpointId := Some ''/gh'',
      t_secret := Some ''s3cr3t'', t_externalWebhookId := Some ''42'',
      t_registeredTasks := Some [''g1''], t_webhookFlag := Some True\<rparr>)"
  by (simp add: scheduleTask_def registerWebhook_def registerExternally_def
      example_defs store_defs js_defs getSourceIdentifier_def
      extractRepoNameFromUrl_def Let_def newWebhookEntry_def assignEntry_def setWebhookIds_def)

theorem scheduleTask_round_trip_witness:
  "getTask (exampleState [] []) ''g1'' = None
   \<and> t_enabled freshWebhookTask \<and> isWebhook (t_trigger freshWebhookTask)
   \<and> success (fst (scheduleTask exampleWorld freshWebhookTask (exampleState [] [])))
   \<and> getWebhookRegistration (exampleState [] []) ''https://github.com/ex/r'' = None
   \<and> getTask (snd (scheduleTask exampleWorld freshWebhookTask (exampleState [] []))) ''g1''
       = Some (assignEntry
                 (setWebhookIds ''42'' ''s3cr3t'' (t_trigger freshWebhookTask))
                 ((exampleEntry ''https://github.com/ex/r'' [''g1''])
                    \<lparr>e_secret := ''s3cr3t'', e_startPageToken := None\<rparr>)
                 (freshWebhookTask\<lparr>t_currentStatus := Some SCHEDULED\<rparr>))
   \<and> getTask lastTaskState ''g2'' = None
   \<and> t_enabled secondWebhookTask \<and> isWebhook (t_trigger secondWebhookTask)
   \<and> success (fst (scheduleTask exampleWorld secondWebhookTask lastTaskState))
   \<and> getWebhookRegistration lastTaskState ''https://github.com/ex/r''
       = Some (exampleEntry ''https://github.com/ex/r'' [''g1''])
   \<and> getTask (snd (scheduleTask exampleWorld secondWebhookTask lastTaskState)) ''g2''
       = Some (secondWebhookTask
                 \<lparr>t_currentStatus := Some SCHEDULED,
                  t_trigger := setWebhookIds ''42'' ''abc'' (t_trigger secondWebhookTask)\<rparr>)
   \<and> getTask (exampleState [] []) ''g3'' = None
   \<and> t_enabled uncredentialedTask \<and> isWebhook (t_trigger uncredentialedTask)
   \<and> \<not> success (fst (scheduleTask exampleWorld uncredentialedTask (exampleState [] [])))
   \<and> getTask (snd (scheduleTask exampleWorld uncredentialedTask (exampleState [] []))) ''g3''
       = Some (uncredentialedTask
                 \<lparr>t_currentStatus := Some FAILED,
                  t_lastRunStatus :=
                    Some (fst (scheduleTask exampleWorld uncredentialedTask (exampleState [] [])))\<rparr>)
   \<and> getTask (exampleState [] []) ''c1'' = None
   \<and> \<not> isWebhook (t_trigger cronTask)
   \<and> getTask (snd (scheduleTask exampleWorld cronTask (exampleState [] []))) ''c1''
       = Some (cronTask\<lparr>t_currentStatus := Some SCHEDULED\<rparr>)"
proof -
  have n1: "getTask (exampleState [] []) ''g1'' = None"
    and n2: "getTask lastTaskState ''g2'' = None"
    and n3: "getTask (exampleState [] []) ''g3'' = None"
    and n4: "getTask (exampleState [] []) ''c1'' = None"
    by (simp_all add: example_defs store_defs)
  have i1: "''g1'' = (if t_id freshWebhookTask \<noteq> [] then t_id freshWebhookTask else uuidv4 exampleWorld)"
    and i2: "''g2'' = (if t_id secondWebhookTask \<noteq> [] then t_id secondWebhookTask else uuidv4 exampleWorld)"
    and i3: "''g3'' = (if t_id uncredentialedTask \<noteq> [] then t_id uncredentialedTask else uuidv4 exampleWorld)"
    and i4: "''c1'' = (if t_id cronTask \<noteq> [] then t_id cronTask else uuidv4 exampleWorld)"
    by (simp_all add: example_defs)
  have kind: "t_enabled freshWebhookTask" "isWebhook (t_trigger freshWebhookTask)"
      "t_enabled secondWebhookTask" "isWebhook (t_trigger secondWebhookTask)"
      "t_enabled uncredentialedTask" "isWebhook (t_trigger uncredentialedTask)"
      "\<not> isWebhook (t_trigger cronTask)"
    by (simp_all add: example_defs)
  have st: "success (fst (scheduleTask exampleWorld freshWebhookTask (exampleState [] [])))"
      "success (fst (scheduleTask exampleWorld secondWebhookTask lastTaskState))"
      "\<not> success (fst (scheduleTask exampleWorld uncredentialedTask (exampleState [] [])))"
    by (simp_all add: schedule_defs example_defs store_defs js_defs)
  have sid: "getSourceIdentifier (pluginType (t_source freshWebhookTask)) (config (t_source freshWebhookTask))
               = Some ''https://github.com/ex/r''"
      "getSourceIdentifier (pluginType (t_source secondWebhookTask)) (config (t_source secondWebhookTask))
               = Some ''https://github.com/ex/r''"
    by (simp_all add: getSourceIdentifier_def example_defs)
  have reg: "getWebhookRegistration (exampleState [] []) ''https://github.com/ex/r'' = None"
      "getWebhookRegistration lastTaskState ''https://github.com/ex/r''
         = Some (exampleEntry ''https://github.com/ex/r'' [''g1''])"
    by (simp_all add: example_defs store_defs)
  have created: "getWebhookRegistration
       (snd (scheduleTask exampleWorld freshWebhookTask (exampleState [] []))) ''https://github.com/ex/r''
      = Some ((exampleEntry ''https://github.com/ex/r'' [''g1''])
                    \<lparr>e_secret := ''s3cr3t'', e_startPageToken := None\<rparr>)"
    by (simp add: schedule_defs example_defs store_defs js_defs)
  have t0: "freshWebhookTask\<lparr>t_id := ''g1'', t_currentStatus := Some SCHEDULED,
                  t_lastRun := None, t_lastRunStatus := None\<rparr>
            = freshWebhookTask\<lparr>t_currentStatus := Some SCHEDULED\<rparr>"
      "secondWebhookTask\<lparr>t_id := ''g2'', t_currentStatus := Some SCHEDULED,
                  t_lastRun := None, t_lastRunStatus := None\<rparr>
            = secondWebhookTask\<lparr>t_currentStatus := Some SCHEDULED\<rparr>"
      "uncredentialedTask\<lparr>t_id := ''g3'', t_currentStatus := Some SCHEDULED,
                  t_lastRun := None, t_lastRunStatus := None\<rparr>
            = uncredentialedTask\<lparr>t_currentStatus := Some SCHEDULED\<rparr>"
      "cronTask\<lparr>t_id := ''c1'', t_currentStatus := Some SCHEDULED,
                  t_lastRun := None, t_lastRunStatus := None\<rparr>
            = cronTask\<lparr>t_currentStatus := Some SCHEDULED\<rparr>"
    by (simp_all add: example_defs)
  note th1 = scheduleTask_round_trip [OF i1 n1 refl surjective_pairing]
  note th2 = scheduleTask_round_trip [OF i2 n2 refl surjective_pairing]
  note th3 = scheduleTask_round_trip [OF i3 n3 refl surjective_pairing]
  note th4 = scheduleTask_round_trip [OF i4 n4 refl surjective_pairing]
  from th1 [THEN conjunct2, THEN conjunct2] kind st sid reg created
  have r1: "getTask (snd (scheduleTask exampleWorld freshWebhookTask (exampleState [] []))) ''g1''
       = Some (assignEntry
                 (setWebhookIds ''42'' ''s3cr3t'' (t_trigger freshWebhookTask))
                 ((exampleEntry ''https://github.com/ex/r'' [''g1''])
                    \<lparr>e_secret := ''s3cr3t'', e_startPageToken := None\<rparr>)
                 (freshWebhookTask\<lparr>t_currentStatus := Some SCHEDULED\<rparr>))"
    by (auto simp: t0 exampleEntry_def)
  from th2 [THEN conjunct2, THEN conjunct2] kind st sid reg
  have r2: "getTask (snd (scheduleTask exampleWorld secondWebhookTask lastTaskState)) ''g2''
       = Some (secondWebhookTask
                 \<lparr>t_currentStatus := Some SCHEDULED,
                  t_trigger := setWebhookIds ''42'' ''abc'' (t_trigger secondWebhookTask)\<rparr>)"
    by (auto simp: t0 exampleEntry_def)
  from th3 [THEN conjunct2, THEN conjunct1] kind st
  have r3: "getTask (snd (scheduleTask exampleWorld uncredentialedTask (exampleState [] []))) ''g3''
       = Some (uncredentialedTask
                 \<lparr>t_currentStatus := Some FAILED,
                  t_lastRunStatus :=
                    Some (fst (scheduleTask exampleWorld uncredentialedTask (exampleState [] [])))\<rparr>)"
    by (simp add: t0)
  from th4 [THEN conjunct1] kind
  have r4: "getTask (snd (scheduleTask exampleWorld cronTask (exampleState [] []))) ''c1''
       = Some (cronTask\<lparr>t_currentStatus := Some SCHEDULED\<rparr>)"
    by (simp add: t0)
  from n1 n2 n3 n4 kind st reg r1 r2 r3 r4 show ?thesis by simp
qed

text \<open>C4 as stated fails: scheduling an enabled Git webhook task into an empty store
  leaves a stored task that differs from the definition in more than \<open>currentStatus\<close>,
  the id and the trigger's secret and external id; \<open>registeredTasks\<close> is one of the
  properties added.\<close>

theorem scheduleTask_round_trip_counterexample:
  "getTask (exampleState [] []) ''g1'' = None
   \<and> map_option spec_roundTripView
        (getTask (snd (scheduleTask exampleWorld freshWebhookTask (exampleState [] []))) ''g1'')
       \<noteq> Some (spec_roundTripView freshWebhookTask)
   \<and> map_option t_registeredTasks
        (getTask (snd (scheduleTask exampleWorld freshWebhookTask (exampleState [] []))) ''g1'')
       = Some (Some [''g1''])
   \<and> t_registeredTasks freshWebhookTask = None"
  by (simp add: scheduled_fresh) (simp add: example_defs store_defs spec_roundTripView_def)

section \<open>Tasks stay under their ids\<close>

lemma update_subset: "set (AList.update k v al) \<subseteq> insert (k, v) (set al)"
  by (induction al) auto

lemma wk_update:
  assumes "distinct (map fst al)" and "list_all (\<lambda>(k, t). t_id t = k) al" and "t_id t' = k"
  shows "distinct (map fst (AList.update k t' al)) \<and> list_all (\<lambda>(k, t). t_id t = k) (AList.update k t' al)"
proof
  show "distinct (map fst (AList.update k t' al))"
    using assms(1) by (simp add: AList.distinct_update)
  show "list_all (\<lambda>(k, t). t_id t = k) (AList.update k t' al)"
    using assms(2,3) update_subset [of k t' al] by (auto simp: list_all_iff)
qed

lemma wellKeyed_cong: "tasks s' = tasks s \<Longrightarrow> wellKeyed s' = wellKeyed s"
  by (simp add: wellKeyed_def)

lemma wellKeyed_saveTask: "wellKeyed s \<Longrightarrow> wellKeyed (saveTask t s)"
  using wk_update [of "tasks s" t "t_id t"] by (simp add: wellKeyed_def saveTask_def)

lemma wellKeyed_updateTask:
  "wellKeyed s \<Longrightarrow> (\<And>t. getTask s k = Some t \<Longrightarrow> t_id (f t) = k) \<Longrightarrow> wellKeyed (updateTask k f s)"
  using wk_update [of "tasks s" _ k]
  by (auto simp: wellKeyed_def updateTask_def getTask_def split: option.splits)

lemma wellKeyed_delete: "wellKeyed s \<Longrightarrow> wellKeyed (db_deleteTask k s)"
  by (auto simp: wellKeyed_def db_deleteTask_def AList.delete_eq distinct_map_filter list_all_iff)

lemma wellKeyed_frame [simp]:
  "wellKeyed (emit e s) = wellKeyed s"
  "wellKeyed (record_call c s) = wellKeyed s"
  "wellKeyed (saveWebhookRegistration entry s) = wellKeyed s"
  "wellKeyed (updateWebhookRegistration sid g s) = wellKeyed s"
  "wellKeyed (deleteWebhookRegistration sid s) = wellKeyed s"
  by (rule wellKeyed_cong, simp)+

lemma wellKeyed_patch:
  "wellKeyed s \<Longrightarrow> (\<And>t. t_id (f t) = t_id t) \<Longrightarrow> wellKeyed (updateTask k f s)"
  by (rule wellKeyed_updateTask) (simp_all add: wellKeyed_id)

lemma registerExternally_wk:
  "wellKeyed s \<Longrightarrow> wellKeyed (snd (registerExternally w T sid resource who s))"
  by (auto simp: registerExternally_def Let_def wellKeyed_patch
      split: IngestionTrigger.splits option.splits if_splits)

lemma registerWebhook_wk:
  "wellKeyed s \<Longrightarrow> wellKeyed (snd (registerWebhook w T s))"
  by (auto simp: registerWebhook_def Let_def registerExternally_wk wellKeyed_patch
      split: option.splits if_splits)

lemma registerShared_wk: "wellKeyed s \<Longrightarrow> wellKeyed (registerShared w key T s)"
  using registerWebhook_wk [of s w T]
  by (auto simp: registerShared_def wellKeyed_patch split: prod.splits option.splits)

lemma registerStored_wk: "wellKeyed s \<Longrightarrow> wellKeyed (registerStored w key T s)"
  using registerWebhook_wk [of s w T]
  by (auto simp: registerStored_def wellKeyed_patch split: prod.splits option.splits)

lemma startLoop_wk: "wellKeyed s \<Longrightarrow> wellKeyed (startLoop w ks s)"
  by (induction ks arbitrary: s) (auto simp: registerStored_wk split: option.splits)

lemma scheduleTask_wk: "wellKeyed s \<Longrightarrow> wellKeyed (snd (scheduleTask w T s))"
proof -
  assume g: "wellKeyed s"
  have reg: "wellKeyed s'" if "registerWebhook w T' (emit e (saveTask T'' s)) = (st, s')"
    for T' T'' e st s'
    using registerWebhook_wk [of "emit e (saveTask T'' s)" w T'] g that
    by (simp add: wellKeyed_saveTask)
  show ?thesis
    using g
    by (auto simp: scheduleTask_def Let_def wellKeyed_saveTask wellKeyed_patch
        split: IngestionTrigger.splits prod.splits dest: reg)
qed


lemma deregisterExternally_table:
  "tasks (snd (deregisterExternally w pt sid tr entry resource who s)) = tasks s"
  by (auto simp: deregisterExternally_def Let_def split: option.splits)

lemma deregisterWebhook_table: "tasks (snd (deregisterWebhook w taskId s)) = tasks s"
  by (auto simp: deregisterWebhook_def Let_def deregisterExternally_table
      split: option.splits IngestionTrigger.splits)

lemma deregisterWebhook_wkD:
  "deregisterWebhook w taskId s = (r, s1) \<Longrightarrow> wellKeyed s1 = wellKeyed s"
  using deregisterWebhook_table [of w taskId s] by (simp add: wellKeyed_def)

lemma handleWebhookChanges_wk:
  "wellKeyed s \<Longrightarrow> wellKeyed (snd (handleWebhookChanges w taskId oldTask updatedTask updates s))"
  by (auto simp: handleWebhookChanges_def Let_def registerShared_wk
      split: prod.splits if_splits dest: deregisterWebhook_wkD)

lemma updateTaskFlow_wk:
  assumes "wellKeyed s" and "keepsId (UpdateTask taskId updates) s"
  shows "wellKeyed (snd (updateTaskFlow w taskId updates s))"
proof (cases "getTask s taskId")
  case None
  with assms show ?thesis by (simp add: updateTaskFlow_def)
next
  case (Some existingTask)
  define s1 where "s1 = emit (TASK_UPDATED (applyUpdates updates existingTask))
                          (updateTask taskId (\<lambda>t. applyUpdates updates existingTask) s)"
  from assms Some have "t_id (applyUpdates updates existingTask) = taskId"
    by (simp add: keepsId_def wellKeyed_id)
  then have g1: "wellKeyed s1" using assms(1) by (simp add: s1_def wellKeyed_updateTask)
  have "snd (updateTaskFlow w taskId updates s) =
       snd (handleWebhookChanges w taskId existingTask (applyUpdates updates existingTask) updates s1)"
    using Some by (simp add: updateTaskFlow_def Let_def s1_def split: prod.splits)
  with handleWebhookChanges_wk [OF g1] show ?thesis by simp
qed

lemma applyUpdates_enabled: "t_id (applyUpdates [SetEnabled b] t) = t_id t"
  by (simp add: applyUpdates_def)

lemma enableTaskFlow_wk: "wellKeyed s \<Longrightarrow> wellKeyed (snd (enableTaskFlow w taskId s))"
  using updateTaskFlow_wk [of s taskId "[SetEnabled True]" w]
  by (auto simp: enableTaskFlow_def keepsId_def applyUpdates_enabled split: option.splits)

lemma disableTaskFlow_wk: "wellKeyed s \<Longrightarrow> wellKeyed (snd (disableTaskFlow w taskId s))"
  using updateTaskFlow_wk [of s taskId "[SetEnabled False]" w]
  by (auto simp: disableTaskFlow_def keepsId_def applyUpdates_enabled split: option.splits)

lemma deleteTask_wk: "wellKeyed s \<Longrightarrow> wellKeyed (snd (deleteTask w taskId s))"
  by (auto simp: deleteTask_def wellKeyed_delete
      split: option.splits IngestionTrigger.splits prod.splits dest: deregisterWebhook_wkD)

lemma runOrchestrator_wk: "wellKeyed s \<Longrightarrow> wellKeyed (snd (runOrchestrator w t p s))"
  using runOrchestrator_static [of w t p s] by (rule wellKeyed_static)

lemma triggerManualTask_wk: "wellKeyed s \<Longrightarrow> wellKeyed (snd (triggerManualTask w taskId p s))"
  by (simp add: triggerManualTask_def runOrchestrator_wk split: option.splits)

lemma triggerTasksForResource_wk:
  "wellKeyed s \<Longrightarrow> wellKeyed (snd (triggerTasksForResource w r ks first s))"
proof (induction ks arbitrary: first s)
  case Nil
  then show ?case by simp
next
  case (Cons k ks)
  show ?case
  proof (cases "getTask s k")
    case None
    with Cons show ?thesis by simp
  next
    case (Some t)
    define p where "p = \<lparr>p_taskDefinition = Some t,
                  p_webhookPayload = pr_payload r,
                  p_externalResourceId = pr_externalResourceId r,
                  p_changeType = pr_changeType r,
                  p_startPageToken = Option.bind (lookupEntry s t) e_startPageToken,
                  p_nextPageToken = Option.bind (lookupEntry s t) e_nextPageToken,
                  p_otherCrawlerSpecificTokens = Option.bind (lookupEntry s t) e_otherCrawlerSpecificTokens,
                  p_fetchedAt = None\<rparr>"
    obtain res s1 where run: "runOrchestrator w t (Some p) s = (res, s1)"
      by (cases "runOrchestrator w t (Some p) s")
    from runOrchestrator_wk [OF Cons.prems, of w t "Some p"] run
    have r1: "wellKeyed s1" by simp
    show ?thesis
    proof (cases res)
      case (Inl err)
      with Some run r1 show ?thesis by (simp add: Let_def p_def)
    next
      case (Inr status)
      with Some run r1 Cons.IH [of s1 "if first = None then Some status else first"] show ?thesis
        by (simp add: Let_def p_def)
    qed
  qed
qed

lemma triggerWebhookTask_wk:
  assumes "wellKeyed s"
  shows "wellKeyed (snd (triggerWebhookTask w endpoint raw hs s))"
proof -
  have "wellKeyed s'"
    if "triggerTasksForResource w r ks None s = (x, s')" for r ks x s'
    using triggerTasksForResource_wk [OF assms, of w r ks None] that by simp
  with assms show ?thesis
    by (auto simp: triggerWebhookTask_def Let_def
        split: list.splits option.splits if_splits prod.splits sum.splits)
qed

lemma triggerAll_wk:
  "wellKeyed s \<Longrightarrow> wellKeyed (snd (triggerAllEnabledCronTasks w eventTime s))"
  using cron_static [of s w eventTime] wellKeyed_static by blast

lemma perform_wk:
  assumes "wellKeyed s" and "keepsId operation s"
  shows "wellKeyed (perform w operation s)"
proof (cases operation)
  case Start
  with assms show ?thesis by (simp add: start_def startLoop_wk)
next
  case (ScheduleTask T)
  with assms show ?thesis by (simp add: scheduleTask_wk)
next
  case (UpdateTask k us)
  with assms show ?thesis by (simp add: flow_states updateTaskFlow_wk)
next
  case (EnableTask k)
  with assms show ?thesis by (simp add: flow_states enableTaskFlow_wk)
next
  case (DisableTask k)
  with assms show ?thesis by (simp add: flow_states disableTaskFlow_wk)
next
  case (DeleteTask k)
  with assms show ?thesis by (simp add: deleteTask_wk)
next
  case (GetTask k)
  with assms show ?thesis by simp
next
  case ListTasks
  with assms show ?thesis by simp
next
  case (TriggerManualTask k p)
  with assms show ?thesis by (simp add: triggerManualTask_wk)
next
  case (TriggerWebhookTask e r h)
  with assms show ?thesis by (simp add: triggerWebhookTask_wk)
next
  case (TriggerAllEnabledCronTasks ev)
  with assms show ?thesis by (simp add: triggerAll_wk)
next
  case (RegisterWebhook T)
  with assms show ?thesis by (simp add: registerWebhook_wk)
next
  case (DeregisterWebhook k)
  with assms show ?thesis using deregisterWebhook_table [of w k s] by (simp add: wellKeyed_def)
qed

text \<open>
  The store of a new manager is empty, and every operation of the manager keeps the keys
  of the task table distinct and every task under its own id, with one exception: an
  \<^verbatim>\<open>updateTask\<close> whose patch sets another id.
\<close>

theorem wellKeyed_kept:
  "wellKeyed initialState
   \<and> (wellKeyed s \<and> keepsId operation s \<longrightarrow> wellKeyed (perform w operation s))"
  by (simp add: perform_wk) (simp add: wellKeyed_def initialState_def)

theorem wellKeyed_kept_witness:
  "wellKeyed cronState
   \<and> keepsId (UpdateTask ''c1'' [SetEnabled False, SetName ''renamed'']) cronState
   \<and> wellKeyed (perform exampleWorld (UpdateTask ''c1'' [SetEnabled False, SetName ''renamed'']) cronState)
   \<and> wellKeyed (exampleState [] [])
   \<and> keepsId (ScheduleTask freshWebhookTask) (exampleState [] [])
   \<and> wellKeyed (perform exampleWorld (ScheduleTask freshWebhookTask) (exampleState [] []))"
proof -
  have wk: "wellKeyed cronState" "wellKeyed (exampleState [] [])"
    by (simp_all add: wellKeyed_def example_defs)
  have k: "keepsId (UpdateTask ''c1'' [SetEnabled False, SetName ''renamed'']) cronState"
      "keepsId (ScheduleTask freshWebhookTask) (exampleState [] [])"
    by (simp_all add: keepsId_def applyUpdates_def example_defs store_defs)
  from wellKeyed_kept [THEN conjunct2, of cronState _ exampleWorld]
    wellKeyed_kept [THEN conjunct2, of "exampleState [] []" _ exampleWorld] wk k
  show ?thesis by blast
qed

section \<open>Cron dispatch (C2)\<close>





text \<open>Why the store must keep its tasks under their ids: after
  \<^verbatim>\<open>updateTask('c1', {id: 'c2'})\<close> two tasks carry the id \<^verbatim>\<open>c2\<close>. The task kept under
  \<^verbatim>\<open>c2\<close> is enabled, has never run and its previous scheduled time is in the window, but
  the only source executed is that of the other task, whose run writes \<open>lastRun\<close> onto
  the task kept under \<^verbatim>\<open>c2\<close>.\<close>

lemma misfiled_tasks:
  "tasks misfiledState = [(''c1'', cronTask\<lparr>t_id := ''c2''\<rparr>), (''c2'', secondCronTask)]"
  by (simp add: update_defs example_defs store_defs js_defs)

lemma cron_misfiled_example:
  "wellKeyed twoCronState
   \<and> \<not> keepsId (UpdateTask ''c1'' [SetId ''c2'']) twoCronState
   \<and> \<not> wellKeyed misfiledState
   \<and> getTask misfiledState ''c2'' = Some secondCronTask
   \<and> t_enabled secondCronTask \<and> t_trigger secondCronTask = Cron ''*/1 * * * *''
   \<and> t_lastRun secondCronTask = None
   \<and> cronPrev exampleWorld ''*/1 * * * *'' 30000 = Inr 0
   \<and> runnable exampleWorld misfiledState secondCronTask
   \<and> newSourceRuns misfiledState
        (snd (triggerAllEnabledCronTasks exampleWorld (Some (TimeDate 30000)) misfiledState))
       = [(''c2'', Some (cronPayload misfiledState (cronTask\<lparr>t_id := ''c2''\<rparr>)))]
   \<and> cronPayload misfiledState (cronTask\<lparr>t_id := ''c2''\<rparr>) \<noteq> cronPayload misfiledState secondCronTask"
  by (simp add: update_defs example_defs store_defs js_defs run_defs wellKeyed_def keepsId_def
      runnable_def newSourceRuns_def)

text \<open>Why the previous scheduled time is what the parser returns: with a parser whose
  \<^verbatim>\<open>prev()\<close> lies strictly before \<open>now\<close>, as that of the example environment, an
  invocation exactly on the scheduled moment 00:01:00 is given 00:00:00. A task that last
  ran at 00:00:30 is not run, although 00:01:00 is a scheduled moment not later than \<open>now\<close>
  that meets the three conditions.\<close>

lemma cron_boundary_example:
  "cronPrev exampleWorld ''*/1 * * * *'' 60001 = Inr 60000
   \<and> cronPrev exampleWorld ''*/1 * * * *'' 60000 = Inr 0
   \<and> getTask ranCronState ''c1'' = Some (cronTask\<lparr>t_lastRun := Some 30000\<rparr>)
   \<and> (60000::int) > 60000 - 65 * 1000 \<and> (60000::int) \<le> 60000 \<and> (30000::int) < 60000
   \<and> newlyTriggered ranCronState
        (snd (triggerAllEnabledCronTasks exampleWorld (Some (TimeDate 60000)) ranCronState)) = []"
  by (simp add: update_defs example_defs store_defs js_defs run_defs newlyTriggered_def)

section \<open>No empty registry entries (C3)\<close>

























text \<open>
  \<^verbatim>\<open>updateTask\<close> and \<^verbatim>\<open>disableTask\<close> drop the status of the deregister flow they run: for a
  stored task they return status 200 whatever \<^verbatim>\<open>deregisterWebhook\<close> returned.
\<close>

theorem updateTask_drops_deregistration_status:
  assumes "getTask s taskId = Some task"
  shows "fst (manager_updateTask w taskId updates s)
         = newGSStatus True 200 ''Task updated successfully.'' None
    \<and> fst (disableTask w taskId s)
         = newGSStatus True 200
             (if t_enabled task then ''Task updated successfully.'' else ''Task is already disabled.'') None"
  using assms
  by (simp add: manager_updateTask_def disableTask_def disableTaskFlow_def updateTaskFlow_def Let_def
      split: prod.splits)

theorem updateTask_drops_deregistration_status_witness:
  "getTask lastTaskState ''g1'' = Some freshWebhookTask \<and> t_enabled freshWebhookTask
   \<and> noGhostEntries lastTaskState
   \<and> map success (deregistrations exampleWorld (DisableTask ''g1'') lastTaskState) = [False]
   \<and> fst (disableTask exampleWorld ''g1'' lastTaskState)
        = newGSStatus True 200 ''Task updated successfully.'' None
   \<and> \<not> noGhostEntries (perform exampleWorld (DisableTask ''g1'') lastTaskState)"
proof -
  have f: "getTask lastTaskState ''g1'' = Some freshWebhookTask" "t_enabled freshWebhookTask"
    by (simp_all add: example_defs store_defs)
  have rest: "noGhostEntries lastTaskState
   \<and> map success (deregistrations exampleWorld (DisableTask ''g1'') lastTaskState) = [False]
   \<and> \<not> noGhostEntries (perform exampleWorld (DisableTask ''g1'') lastTaskState)"
    by (simp add: disableTask_def disableTaskFlow_def updateTaskFlow_def handleWebhookChanges_def
        applyUpdates_def deregisterWebhook_def deregisterExternally_def registerShared_def
        registerWebhook_def getSourceIdentifier_def extractRepoNameFromUrl_def Let_def
        example_defs store_defs js_defs noGhostEntries_def)
  from updateTask_drops_deregistration_status [OF f(1), of exampleWorld, THEN conjunct2] f rest
  show ?thesis by simp
qed

section \<open>Signature validation in webhook dispatch (C5)\<close>

lemma checkGitSignature_rejects:
  assumes "sec \<noteq> []"
    and "orElse (map_of headers ''x-hub-signature-256'') (map_of headers ''x-hub-signature'') = Some signature"
    and "signature \<noteq> []"
    and "split_on (CHR ''='') signature = algorithm # rest"
    and "algorithm \<noteq> ''sha256''
         \<or> (case rest of [] \<Rightarrow> None | h # hs \<Rightarrow> Some h) \<noteq> Some (hmacSha256Hex w sec body)"
  shows "checkGitSignature w headers body (Some sec)
    = Inl (if algorithm \<noteq> ''sha256'' then ''Unsupported signature algorithm.''
           else ''Invalid webhook signature.'')"
  using assms by (auto simp: checkGitSignature_def Let_def)

lemma checkGitSignature_unsigned: "checkGitSignature w headers body None = Inr False"
  by (simp add: checkGitSignature_def)

text \<open>
  C5, as amended. Take a webhook dispatch for an endpoint whose first enabled task is a
  Git task, with a body that parses and names its repository, a registry entry for that
  repository with a non-empty secret, and a non-empty signature header
  (\<^verbatim>\<open>x-hub-signature-256\<close>, or else \<^verbatim>\<open>x-hub-signature\<close>). Cut the header at every
  \<^verbatim>\<open>=\<close>: if the first piece is not \<^verbatim>\<open>sha256\<close>, or the second piece is missing or
  differs from the hex HMAC-SHA256 of the body under the secret, \<^verbatim>\<open>triggerWebhookTask\<close>
  returns status 401 and leaves the state unchanged, so no orchestrator run starts; the
  message is \<^verbatim>\<open>Unsupported signature algorithm.\<close> in the first case and
  \<^verbatim>\<open>Invalid webhook signature.\<close> in the second.
\<close>

theorem triggerWebhookTask_rejects_bad_signature:
  assumes tasks: "filter (\<lambda>t. t_enabled t \<and> trig_endpointId (t_trigger t) = Some endpoint) (listAllTasks s)
            = firstTask # others"
    and git: "pluginType (t_source firstTask) = ''git-crawler''"
    and body: "(case rawRequest of ObjectBody b \<Rightarrow> Some b | StringBody b \<Rightarrow> Some b | OtherBody \<Rightarrow> None)
            = Some body"
    and parse: "jsonParse w body = Some payload"
    and name: "gp_repository_full_name payload = Some fullName" "fullName \<noteq> []"
    and entry: "getWebhookRegistration s (''https://github.com/'' @ fullName) = Some entry"
      "e_secret entry \<noteq> []"
    and sig: "orElse (map_of headers ''x-hub-signature-256'') (map_of headers ''x-hub-signature'')
            = Some signature" "signature \<noteq> []"
    and split: "split_on (CHR ''='') signature = algorithm # rest"
    and bad: "algorithm \<noteq> ''sha256''
         \<or> (case rest of [] \<Rightarrow> None | h # hs \<Rightarrow> Some h) \<noteq> Some (hmacSha256Hex w (e_secret entry) body)"
  shows "triggerWebhookTask w endpoint rawRequest headers s
    = (newGSStatus False 401
         (if algorithm \<noteq> ''sha256'' then ''Unsupported signature algorithm.''
          else ''Invalid webhook signature.'') None, s)"
proof -
  have pre: "processWebhookRequest w ''git-crawler'' headers None rawRequest
     = \<lparr>isValid = True, pr_payload = Some (GitBody payload),
        pr_externalResourceId = Some (''https://github.com/'' @ fullName),
        pr_changeType = Some (if map_of headers ''x-github-event'' = Some ''push''
                              then (if gp_deleted payload then DELETE else UPSERT)
                              else if map_of headers ''x-github-event'' = Some ''pull_request''
                              then UPSERT else UNKNOWN),
        pr_error = None\<rparr>"
    using body parse name
    by (simp add: processWebhookRequest_def handleGitWebhook_def checkGitSignature_unsigned
        Let_def truthy_def)
  have fin: "processWebhookRequest w ''git-crawler'' headers (Some (e_secret entry)) rawRequest
     = \<lparr>isValid = False, pr_payload = None, pr_externalResourceId = None, pr_changeType = None,
        pr_error = Some (if algorithm \<noteq> ''sha256'' then ''Unsupported signature algorithm.''
                         else ''Invalid webhook signature.'')\<rparr>"
    using body parse checkGitSignature_rejects [OF entry(2) sig split bad]
    by (simp add: processWebhookRequest_def handleGitWebhook_def webhookFailure_def
        Let_def truthy_def)
  show ?thesis
    using tasks git entry
    by (simp add: triggerWebhookTask_def Let_def pre fin orDefault_def)
qed

theorem triggerWebhookTask_rejects_bad_signature_witness:
  "filter (\<lambda>t. t_enabled t \<and> trig_endpointId (t_trigger t) = Some ''/gh'') (listAllTasks lastTaskState)
     = [freshWebhookTask]
   \<and> pluginType (t_source freshWebhookTask) = ''git-crawler''
   \<and> map_option e_secret (getWebhookRegistration lastTaskState ''https://github.com/ex/r'') = Some ''abc''
   \<and> map_of wrongSignature ''x-hub-signature-256'' = Some ''sha256=0badc0de''
   \<and> split_on (CHR ''='') ''sha256=0badc0de'' = [''sha256'', ''0badc0de'']
   \<and> ''0badc0de'' \<noteq> hmacSha256Hex exampleWorld ''abc''
        ''{\"repository\":{\"full_name\":\"ex/r\"},\"deleted\":false}''
   \<and> triggerWebhookTask exampleWorld ''/gh'' pushBody wrongSignature lastTaskState
     = (newGSStatus False 401 ''Invalid webhook signature.'' None, lastTaskState)"
proof -
  have tasks: "filter (\<lambda>t. t_enabled t \<and> trig_endpointId (t_trigger t) = Some ''/gh'')
       (listAllTasks lastTaskState) = freshWebhookTask # []"
    by (simp add: example_defs store_defs)
  have git: "pluginType (t_source freshWebhookTask) = ''git-crawler''" by (simp add: example_defs)
  have body: "(case pushBody of ObjectBody b \<Rightarrow> Some b | StringBody b \<Rightarrow> Some b | OtherBody \<Rightarrow> None)
       = Some ''{\"repository\":{\"full_name\":\"ex/r\"},\"deleted\":false}''"
    by (simp add: example_defs)
  have parse: "jsonParse exampleWorld ''{\"repository\":{\"full_name\":\"ex/r\"},\"deleted\":false}''
       = Some \<lparr>gp_deleted = False, gp_repository_full_name = Some ''ex/r''\<rparr>"
    by (simp add: example_defs)
  have name: "gp_repository_full_name \<lparr>gp_deleted = False, gp_repository_full_name = Some ''ex/r''\<rparr>
       = Some ''ex/r''" "''ex/r'' \<noteq> []"
    by simp_all
  have entry: "getWebhookRegistration lastTaskState (''https://github.com/'' @ ''ex/r'')
       = Some (exampleEntry ''https://github.com/ex/r'' [''g1''])"
      "e_secret (exampleEntry ''https://github.com/ex/r'' [''g1'']) \<noteq> []"
    by (simp_all add: example_defs store_defs)
  have sig: "orElse (map_of wrongSignature ''x-hub-signature-256'') (map_of wrongSignature ''x-hub-signature'')
       = Some ''sha256=0badc0de''" "''sha256=0badc0de'' \<noteq> []"
    by (simp_all add: example_defs js_defs)
  have split: "split_on (CHR ''='') ''sha256=0badc0de'' = ''sha256'' # [''0badc0de'']"
    by simp
  have bad: "''sha256'' \<noteq> ''sha256''
      \<or> (case [''0badc0de''] of [] \<Rightarrow> None | h # hs \<Rightarrow> Some h)
          \<noteq> Some (hmacSha256Hex exampleWorld (e_secret (exampleEntry ''https://github.com/ex/r'' [''g1'']))
               ''{\"repository\":{\"full_name\":\"ex/r\"},\"deleted\":false}'')"
    by (simp add: example_defs)
  from triggerWebhookTask_rejects_bad_signature [OF tasks git body parse name entry sig split bad]
  have "triggerWebhookTask exampleWorld ''/gh'' pushBody wrongSignature lastTaskState
     = (newGSStatus False 401 ''Invalid webhook signature.'' None, lastTaskState)"
    by simp
  with tasks git entry sig split show ?thesis
    by (simp add: example_defs store_defs)
qed

text \<open>C5 as stated fails: the header \<^verbatim>\<open>sha256=deadbeef=junk\<close> differs from \<^verbatim>\<open>sha256=\<close>
  followed by the HMAC \<^verbatim>\<open>deadbeef\<close>, yet the dispatch answers 200 and the orchestrator
  runs for the task.\<close>

theorem triggerWebhookTask_padded_signature_counterexample:
  "map_of paddedSignature ''x-hub-signature-256'' = Some ''sha256=deadbeef=junk''
   \<and> ''sha256=deadbeef=junk'' \<noteq> ''sha256='' @ hmacSha256Hex exampleWorld ''abc''
        ''{\"repository\":{\"full_name\":\"ex/r\"},\"deleted\":false}''
   \<and> map_option e_secret (getWebhookRegistration lastTaskState ''https://github.com/ex/r'') = Some ''abc''
   \<and> code (fst (triggerWebhookTask exampleWorld ''/gh'' pushBody paddedSignature lastTaskState)) = 200
   \<and> triggered (events (snd (triggerWebhookTask exampleWorld ''/gh'' pushBody paddedSignature lastTaskState)))
       = [''g1'']"
  by (simp add: run_defs example_defs store_defs js_defs)

section \<open>Cursor enrichment of cron runs (C6)\<close>

lemma cronPayload_no_cursors:
  "p_startPageToken (cronPayload s task) = None \<and> p_nextPageToken (cronPayload s task) = None
   \<and> p_otherCrawlerSpecificTokens (cronPayload s task) = None"
  by (simp add: cronPayload_def emptyPayload_def Let_def)

text \<open>
  C6, the code at a failing input: a due cron task on a Drive folder whose registry entry
  holds the start page token \<^verbatim>\<open>42\<close>. The task is executed, and the payload handed to
  its source holds the task and an empty webhook payload but no start page token.
\<close>

theorem cron_run_payload_without_cursors:
  "map_option e_startPageToken (lookupEntry cronState cronTask) = Some (Some ''42'')
   \<and> newlyTriggered cronState (snd (triggerAllEnabledCronTasks exampleWorld (Some (TimeDate 30000)) cronState))
       = [''c1'']
   \<and> calls (snd (triggerAllEnabledCronTasks exampleWorld (Some (TimeDate 30000)) cronState))
       = [SourceExecute ''c1'' (Some (emptyPayload\<lparr>p_taskDefinition := Some cronTask,
            p_webhookPayload := Some EmptyText\<rparr>))]
   \<and> p_startPageToken (emptyPayload\<lparr>p_taskDefinition := Some cronTask,
            p_webhookPayload := Some EmptyText\<rparr>) = None"
  by (simp add: run_defs example_defs store_defs js_defs newlyTriggered_def)

section \<open>Cursor write-back after a run (C7)\<close>

text \<open>
  C7, the code at a failing input: a webhook task without a registry entry whose source
  returns the start page token \<^verbatim>\<open>42\<close>. The run succeeds, and the registry is still
  empty afterwards: no entry was created to hold the token.
\<close>

theorem runOrchestrator_creates_no_entry:
  "t_trigger freshWebhookTask = exampleWebhook
   \<and> getWebhookRegistration (exampleState [freshWebhookTask] []) ''https://github.com/ex/r'' = None
   \<and> sourceExecute exampleWorld (t_source freshWebhookTask) None
       = Inr (newGSStatus True 200 ''ok''
           (Some \<lparr>sd_data = Some (RawArray [''item'']), sd_startPageToken = Some ''42'',
                  sd_nextPageToken = None, sd_otherCrawlerSpecificTokens = None\<rparr>))
   \<and> fst (runOrchestrator exampleWorld freshWebhookTask None (exampleState [freshWebhookTask] []))
       = Inr (newGSStatus True 200 ''Ingestion task completed successfully.''
               (Some (execData (Some 1) None)))
   \<and> webhookRegistrations
        (snd (runOrchestrator exampleWorld freshWebhookTask None (exampleState [freshWebhookTask] [])))
       = []"
  by (simp add: run_defs example_defs store_defs js_defs)

end
